theory Spec2Isabelle
  imports Complex_Main "HOL-Library.Sublist" "HOL-Library.Word"
begin

section \<open>Strings\<close>

text \<open>
  A string of the program is a sequence of 16-bit code units (UTF-16), and its methods
  count, compare and cut code units: \<open>length\<close>, \<open>slice\<close>, \<open>split\<close>, \<open>startsWith\<close>, \<open>trim\<close>,
  \<open>===\<close>. The model takes a string as the list of its code units. \<open>js\<close> gives the string of
  a literal of the source, \<open>cu\<close> the code unit of one of its characters.
\<close>

type_synonym codeunit = "16 word"

type_synonym jsstring = "codeunit list"

definition cu :: "char \<Rightarrow> codeunit" where
  "cu c = of_char c"

definition js :: "string \<Rightarrow> jsstring" where
  "js s = map cu s"

definition is_space :: "codeunit \<Rightarrow> bool" where
  \<comment> \<open>The code units that \<open>String.prototype.trim\<close> and the regular expression class \<open>\s\<close>
      treat as white space, which are the white space and the line terminators of the
      language: tab, line feed, vertical tab, form feed, carriage return, space, the
      no-break space U+00A0, U+1680, U+2000 to U+200A, the line and paragraph separators
      U+2028 and U+2029, U+202F, U+205F, U+3000 and the byte order mark U+FEFF.\<close>
  "is_space c \<longleftrightarrow>
     c \<in> set [0x09, 0x0A, 0x0B, 0x0C, 0x0D, 0x20, 0xA0, 0x1680, 0x2028, 0x2029, 0x202F, 0x205F,
              0x3000, 0xFEFF]
     \<or> (0x2000 \<le> c \<and> c \<le> 0x200A)"

definition trim :: "jsstring \<Rightarrow> jsstring" where
  "trim s = rev (dropWhile is_space (rev (dropWhile is_space s)))"

definition startsWith :: "jsstring \<Rightarrow> jsstring \<Rightarrow> bool" where
  "startsWith s p \<longleftrightarrow> take (length p) s = p"

definition endsWith :: "jsstring \<Rightarrow> jsstring \<Rightarrow> bool" where
  "endsWith s p \<longleftrightarrow> startsWith (rev s) (rev p)"

fun split_on :: "codeunit \<Rightarrow> jsstring \<Rightarrow> jsstring list" where
  \<comment> \<open>\<open>s.split(c)\<close> for a one-character separator: the empty string gives one empty piece.\<close>
  "split_on c [] = [[]]"
| "split_on c (x # xs) =
     (if x = c then [] # split_on c xs
      else (case split_on c xs of [] \<Rightarrow> [[x]] | y # ys \<Rightarrow> (x # y) # ys))"

fun join :: "jsstring \<Rightarrow> jsstring list \<Rightarrow> jsstring" where
  \<comment> \<open>\<open>xs.join(sep)\<close>\<close>
  "join sep [] = []"
| "join sep [x] = x"
| "join sep (x # y # ys) = x @ sep @ join sep (y # ys)"

section \<open>The path functions of the runtime (POSIX)\<close>

text \<open>
  \<open>path.isAbsolute\<close>, \<open>path.resolve\<close> and \<open>path.relative\<close> belong to the runtime's
  \<open>node:path\<close> module, not to the repository. They are modelled here as the POSIX
  variant of the module documents and implements them. \<open>pcwd\<close> is the working
  directory of the process (\<open>process.cwd()\<close>, an absolute path), which \<open>path.resolve\<close>
  falls back on when its arguments give no absolute path.
\<close>

definition isAbsolute :: "jsstring \<Rightarrow> bool" where
  "isAbsolute p \<longleftrightarrow> (case p of [] \<Rightarrow> False | c # _ \<Rightarrow> c = cu CHR ''/'')"

fun normalizeSegments :: "bool \<Rightarrow> jsstring list \<Rightarrow> jsstring list \<Rightarrow> jsstring list" where
  \<comment> \<open>The runtime's \<open>normalizeString\<close>, on the pieces between separators: \<open>res\<close> holds the
      segments kept so far, last one first. Empty pieces and \<open>.\<close> are dropped; \<open>..\<close> removes
      the last kept segment unless that one is \<open>..\<close> itself, and where there is none to remove
      it is kept only when \<open>allowAboveRoot\<close> holds.\<close>
  "normalizeSegments allowAboveRoot res [] = rev res"
| "normalizeSegments allowAboveRoot res (s # ss) =
     (if s = [] \<or> s = js ''.'' then normalizeSegments allowAboveRoot res ss
      else if s = js ''..'' then
        (case res of
           r # rs \<Rightarrow>
             (if r \<noteq> js ''..'' then normalizeSegments allowAboveRoot rs ss
              else if allowAboveRoot then normalizeSegments allowAboveRoot (js ''..'' # res) ss
              else normalizeSegments allowAboveRoot res ss)
         | [] \<Rightarrow>
             (if allowAboveRoot then normalizeSegments allowAboveRoot [js ''..''] ss
              else normalizeSegments allowAboveRoot [] ss))
      else normalizeSegments allowAboveRoot (s # res) ss)"

fun resolveArgs :: "jsstring list \<Rightarrow> jsstring \<Rightarrow> jsstring \<times> bool" where
  \<comment> \<open>The loop of \<open>path.resolve\<close>: the arguments are visited from the last to the first
      (the list is given in that order), empty ones are skipped, and the loop stops at
      the first absolute one.\<close>
  "resolveArgs [] resolvedPath = (resolvedPath, False)"
| "resolveArgs (p # ps) resolvedPath =
     (if p = [] then resolveArgs ps resolvedPath
      else if isAbsolute p then (p @ js ''/'' @ resolvedPath, True)
      else resolveArgs ps (p @ js ''/'' @ resolvedPath))"

definition path_resolve :: "jsstring \<Rightarrow> jsstring list \<Rightarrow> jsstring" where
  "path_resolve pcwd args =
     (case resolveArgs (rev (pcwd # args)) [] of
        (resolvedPath, resolvedAbsolute) \<Rightarrow>
          (let normalized =
                 join (js ''/'') (normalizeSegments (\<not> resolvedAbsolute) [] (split_on (cu CHR ''/'') resolvedPath))
           in if resolvedAbsolute then cu CHR ''/'' # normalized
              else if normalized = [] then js ''.'' else normalized))"

definition segments :: "jsstring \<Rightarrow> jsstring list" where
  \<comment> \<open>The segments of a resolved path.\<close>
  "segments p = filter (\<lambda>s. s \<noteq> []) (split_on (cu CHR ''/'') p)"

fun dropCommon :: "jsstring list \<Rightarrow> jsstring list \<Rightarrow> jsstring list \<times> jsstring list" where
  \<comment> \<open>Removes the longest common prefix of two segment lists.\<close>
  "dropCommon (x # xs) (y # ys) = (if x = y then dropCommon xs ys else (x # xs, y # ys))"
| "dropCommon xs ys = (xs, ys)"

definition path_relative :: "jsstring \<Rightarrow> jsstring \<Rightarrow> jsstring \<Rightarrow> jsstring" where
  \<comment> \<open>\<open>path.relative(from, to)\<close>: both paths are resolved; the result climbs with one \<open>..\<close>
      for every segment of \<open>from\<close> below the common directory and then descends along the
      rest of \<open>to\<close>.\<close>
  "path_relative pcwd from to =
     (if from = to then []
      else
        (let from' = path_resolve pcwd [from]; to' = path_resolve pcwd [to]
         in if from' = to' then []
            else (case dropCommon (segments from') (segments to') of
                    (fromRest, toRest) \<Rightarrow>
                      join (js ''/'') (replicate (length fromRest) (js ''..'') @ toRest))))"

section \<open>The tool-call policy checker\<close>

record ResolvedScope =
  cwd :: jsstring
  allowedRoots :: "jsstring list"
  allowedFiles :: "jsstring list"

text \<open>
  The \<open>input\<close> of a tool call after \<open>normalizeToolInput\<close>: the four properties the checker
  reads. A property is \<open>None\<close> when it is absent or not a string (\<open>typeof \<noteq> "string"\<close>), which
  is also the case of every property when the input is not an object.
\<close>

record ToolInput =
  path :: "jsstring option"
  file_path :: "jsstring option"
  pattern :: "jsstring option"
  glob :: "jsstring option"

definition normalizeToolPath :: "jsstring \<Rightarrow> jsstring" where
  \<comment> \<open>\<open>input.trim().replace(/^@/, "")\<close>\<close>
  "normalizeToolPath input =
     (case trim input of [] \<Rightarrow> [] | c # cs \<Rightarrow> (if c = cu CHR ''@'' then cs else c # cs))"

definition isWithinPath :: "jsstring \<Rightarrow> jsstring \<Rightarrow> jsstring \<Rightarrow> bool" where
  "isWithinPath pcwd targetPath rootPath =
     (let relative = path_relative pcwd rootPath targetPath
      in relative = [] \<or> (\<not> startsWith relative (js ''..'') \<and> \<not> isAbsolute relative))"

definition replaceBackslashes :: "jsstring \<Rightarrow> jsstring" where
  \<comment> \<open>\<open>pattern.replace(/\\/g, "/")\<close>: every backslash (character 0x5C) becomes a slash.\<close>
  "replaceBackslashes s = map (\<lambda>c. if c = 0x5C then cu CHR ''/'' else c) s"

definition hasUnsafeGlobSegments :: "jsstring \<Rightarrow> bool" where
  "hasUnsafeGlobSegments pat =
     (let normalized = trim (replaceBackslashes pat)
      in if normalized = [] then False
         else if isAbsolute normalized then True
         else list_ex (\<lambda>segment. segment = js ''..'') (split_on (cu CHR ''/'') normalized))"

definition unsafeStringArg :: "jsstring option \<Rightarrow> jsstring option" where
  \<comment> \<open>The test \<open>typeof arg === "string" && hasUnsafeGlobSegments(arg)\<close>: the argument when
      the test holds.\<close>
  "unsafeStringArg arg =
     (case arg of None \<Rightarrow> None | Some p \<Rightarrow> if hasUnsafeGlobSegments p then Some p else None)"

text \<open>
  The checker returns one of five messages. A value of \<open>Violation\<close> records which message
  it is and the values interpolated into it; \<open>violationText\<close> is the message itself.
  The turn index, the number of tool calls and the two budgets are counts; they are
  modelled as integers.
\<close>

datatype Violation =
  TurnBudgetExceeded int int
| ToolCallBudgetExceeded int int
| UnsafeFindPattern jsstring
| UnsafeGrepGlob jsstring
| OutOfScopePath jsstring jsstring "jsstring list" "jsstring list"

definition rawPathOf :: "ToolInput \<Rightarrow> jsstring" where
  \<comment> \<open>The \<open>rawPath\<close> of the checker: the string property \<open>path\<close>, else the string property
      \<open>file_path\<close>, else the current directory.\<close>
  "rawPathOf toolInput =
     (case path toolInput of
        Some p \<Rightarrow> p
      | None \<Rightarrow> (case file_path toolInput of Some p \<Rightarrow> p | None \<Rightarrow> js ''.''))"

definition resolvedToolPath :: "jsstring \<Rightarrow> ResolvedScope \<Rightarrow> jsstring \<Rightarrow> jsstring" where
  \<comment> \<open>\<open>path.resolve(scope.cwd, normalizeToolPath(rawPath))\<close>\<close>
  "resolvedToolPath pcwd scope rawPath = path_resolve pcwd [cwd scope, normalizeToolPath rawPath]"

definition getToolCallPolicyViolation ::
  "jsstring \<Rightarrow> jsstring \<Rightarrow> ToolInput \<Rightarrow> int \<Rightarrow> int \<Rightarrow> int \<Rightarrow> int \<Rightarrow> ResolvedScope \<Rightarrow> Violation option" where
  "getToolCallPolicyViolation pcwd toolName toolInput turnIndex toolCalls maxTurns maxToolCalls scope =
     (if turnIndex \<ge> maxTurns - 1 then
        Some (TurnBudgetExceeded (min (turnIndex + 1) maxTurns) maxTurns)
      else if toolCalls \<ge> maxToolCalls then
        Some (ToolCallBudgetExceeded toolCalls maxToolCalls)
      else if toolName \<notin> set [js ''read'', js ''grep'', js ''find'', js ''ls''] then None
      else if allowedRoots scope = [] \<and> allowedFiles scope = [] then None
      else
        (let rawPath = rawPathOf toolInput
         in (case (if toolName = js ''find'' then unsafeStringArg (pattern toolInput) else None) of
               Some p \<Rightarrow> Some (UnsafeFindPattern p)
             | None \<Rightarrow>
                (case (if toolName = js ''grep'' then unsafeStringArg (glob toolInput) else None) of
                   Some g \<Rightarrow> Some (UnsafeGrepGlob g)
                 | None \<Rightarrow>
                    (let resolvedPath = resolvedToolPath pcwd scope rawPath;
                         allowedByRoot =
                           list_ex (\<lambda>root. isWithinPath pcwd resolvedPath root) (allowedRoots scope);
                         allowedByFile = list_ex (\<lambda>file. resolvedPath = file) (allowedFiles scope)
                     in if allowedByRoot \<or> allowedByFile then None
                        else Some (OutOfScopePath toolName rawPath (allowedRoots scope)
                                     (allowedFiles scope)))))))"

text \<open>Numbers in the messages: the decimal text of an integer, as string interpolation gives it.\<close>

definition digitChar :: "nat \<Rightarrow> codeunit" where
  "digitChar d = js ''0123456789'' ! d"

function showNat :: "nat \<Rightarrow> jsstring" where
  "showNat n = (if n < 10 then [digitChar n] else showNat (n div 10) @ [digitChar (n mod 10)])"
  by pat_completeness auto
termination
  by (relation "measure id") auto

declare showNat.simps [simp del]

definition showInt :: "int \<Rightarrow> jsstring" where
  "showInt i = (if i < 0 then cu CHR ''-'' # showNat (nat (- i)) else showNat (nat i))"

definition violationText :: "Violation \<Rightarrow> jsstring" where
  "violationText v =
     (case v of
        TurnBudgetExceeded humanTurn maxT \<Rightarrow>
          js ''Replicant subagent turn budget exceeded ('' @ showInt humanTurn @ js ''/'' @ showInt maxT
            @ js '') before producing a final answer.''
      | ToolCallBudgetExceeded calls maxC \<Rightarrow>
          js ''Replicant subagent tool call budget exceeded ('' @ showInt calls @ js ''/'' @ showInt maxC
            @ js ''). Narrow the task for focused exploration.''
      | UnsafeFindPattern p \<Rightarrow>
          js ''Replicant subagent attempted out-of-scope find pattern: '' @ p
            @ js ''. Parent-directory and absolute patterns are not allowed.''
      | UnsafeGrepGlob g \<Rightarrow>
          js ''Replicant subagent attempted out-of-scope grep glob: '' @ g
            @ js ''. Parent-directory and absolute globs are not allowed.''
      | OutOfScopePath tool rawPath roots files \<Rightarrow>
          js ''Replicant subagent attempted out-of-scope '' @ tool @ js '' path: '' @ rawPath
            @ js ''. Allowed roots: '' @ join (js '', '') roots
            @ js ''. Allowed files: ''
            @ (if join (js '', '') files = [] then js ''(none)'' else join (js '', '') files) @ js ''.'')"

section \<open>The policy hook of the supervisor\<close>

record ReplicantPolicyState =
  turnIndex :: int
  toolCalls :: int
  violation :: "jsstring option"
  turnBudgetBlocked :: "jsstring option"

text \<open>
  What one run of the \<open>tool_call\<close> handler does: the value it returns to the session
  (\<open>Blocked reason\<close> for \<open>{block: true, reason}\<close>, \<open>Allowed\<close> for \<open>undefined\<close>), whether it called
  \<open>ctx.abort()\<close>, and the policy state it leaves.
\<close>

datatype HookVerdict = Allowed | Blocked jsstring

record HookOutcome =
  verdict :: HookVerdict
  abortRequested :: bool
  policyState :: ReplicantPolicyState

definition onTurnStart :: "int \<Rightarrow> ReplicantPolicyState \<Rightarrow> ReplicantPolicyState" where
  "onTurnStart eventTurnIndex st = st\<lparr>turnIndex := eventTurnIndex\<rparr>"

definition firstWins :: "jsstring option \<Rightarrow> jsstring \<Rightarrow> jsstring option" where
  \<comment> \<open>\<open>old ?? new\<close>\<close>
  "firstWins old new = (case old of None \<Rightarrow> Some new | Some v \<Rightarrow> Some v)"

definition onToolCall ::
  "jsstring \<Rightarrow> ResolvedScope \<Rightarrow> int \<Rightarrow> int \<Rightarrow> jsstring \<Rightarrow> ToolInput \<Rightarrow> ReplicantPolicyState \<Rightarrow> HookOutcome" where
  \<comment> \<open>The handler tests \<open>if (violation)\<close> on the message; every message is a non-empty string
      (\<open>violationText_nonempty\<close> below), so the test holds exactly when the checker returns one.\<close>
  "onToolCall pcwd sc maxT maxC toolName toolInput st =
     (case getToolCallPolicyViolation pcwd toolName toolInput (turnIndex st) (toolCalls st) maxT maxC sc of
        Some v \<Rightarrow>
          (let blockedOnFinalTurn = (turnIndex st \<ge> maxT - 1)
           in if blockedOnFinalTurn then
                \<lparr>verdict = Blocked (violationText v), abortRequested = False,
                 policyState = st\<lparr>turnBudgetBlocked := firstWins (turnBudgetBlocked st) (violationText v)\<rparr>\<rparr>
              else
                \<lparr>verdict = Blocked (violationText v), abortRequested = True,
                 policyState = st\<lparr>violation := firstWins (violation st) (violationText v)\<rparr>\<rparr>)
      | None \<Rightarrow>
          \<lparr>verdict = Allowed, abortRequested = False,
           policyState = st\<lparr>toolCalls := toolCalls st + 1\<rparr>\<rparr>)"

section \<open>The execution supervisor\<close>

subsection \<open>Budgets\<close>

text \<open>
  An optional numeric option of the run (\<open>maxTurns?: number\<close>): \<open>None\<close> when it is left out.
  A number of the language is a finite value, \<open>NaN\<close> or one of the two infinities; the
  finite values are taken as reals, on which the comparison with zero and \<open>Math.floor\<close>
  are exact.
\<close>

datatype JSNumber = Finite real | NaN | PosInfinity | NegInfinity

definition DEFAULT_MAX_TURNS :: int where
  "DEFAULT_MAX_TURNS = 8"

definition DEFAULT_MAX_TOOL_CALLS :: int where
  "DEFAULT_MAX_TOOL_CALLS = 40"

definition MAX_EVENTS_TO_KEEP :: nat where
  "MAX_EVENTS_TO_KEEP = 120"

definition effectiveBudget :: "JSNumber option \<Rightarrow> int \<Rightarrow> int" where
  \<comment> \<open>\<open>typeof n === "number" && Number.isFinite(n) && n > 0 ? Math.floor(n) : fallback\<close>\<close>
  "effectiveBudget requested fallback =
     (case requested of
        Some (Finite x) \<Rightarrow> if x > 0 then \<lfloor>x\<rfloor> else fallback
      | _ \<Rightarrow> fallback)"

definition effectiveMaxTurns :: "JSNumber option \<Rightarrow> int" where
  "effectiveMaxTurns requested = effectiveBudget requested DEFAULT_MAX_TURNS"

definition effectiveMaxToolCalls :: "JSNumber option \<Rightarrow> int" where
  "effectiveMaxToolCalls requested = effectiveBudget requested DEFAULT_MAX_TOOL_CALLS"

subsection \<open>The run record\<close>

datatype ReplicantPhase = Booting | Exploring | Writing | Done | Error | Aborted

datatype ToolEventType = ToolStart | ToolEnd

text \<open>An entry of the event log; its \<open>args\<close> and \<open>timestamp\<close> are left out of the model.\<close>

record ToolEvent =
  eventType :: ToolEventType
  toolName :: jsstring
  isError :: "bool option"

record ReplicantSubprocessDetails =
  phase :: ReplicantPhase
  message :: jsstring
  toolCalls :: int
  toolErrors :: int
  turns :: int
  maxTurns :: int
  maxToolCalls :: int
  exitCode :: "int option"
  stopReason :: "jsstring option"
  errorMessage :: "jsstring option"
  stdoutOverflow :: bool
  stderrOverflow :: bool
  finalTextTruncated :: bool
  events :: "ToolEvent list"

definition initialDetails :: "int \<Rightarrow> int \<Rightarrow> ReplicantSubprocessDetails" where
  "initialDetails effTurns effToolCalls =
     \<lparr>phase = Booting, message = js ''starting subagent'', toolCalls = 0, toolErrors = 0, turns = 0,
      maxTurns = effTurns, maxToolCalls = effToolCalls, exitCode = None, stopReason = None,
      errorMessage = None, stdoutOverflow = False, stderrOverflow = False,
      finalTextTruncated = False, events = []\<rparr>"

subsection \<open>Messages and events of the session\<close>

text \<open>
  A message of the session's log, and a block of its content. A property is \<open>None\<close> when
  it is absent or not a string; \<open>messageContent\<close> is \<open>None\<close> when \<open>content\<close> is not an array.
\<close>

record ContentPart =
  partType :: "jsstring option"
  partText :: "jsstring option"

record SessionMessage =
  messageRole :: "jsstring option"
  messageContent :: "ContentPart list option"
  messageStopReason :: "jsstring option"
  messageErrorMessage :: "jsstring option"

definition extractAssistantText :: "SessionMessage \<Rightarrow> jsstring" where
  "extractAssistantText m =
     (if messageRole m \<noteq> Some (js ''assistant'') then []
      else (case messageContent m of
              None \<Rightarrow> []
            | Some parts \<Rightarrow>
                concat (map (\<lambda>part. if partType part = Some (js ''text'')
                                     then (case partText part of Some t \<Rightarrow> t | None \<Rightarrow> [])
                                     else []) parts)))"

fun getLastAssistantMessage :: "SessionMessage list \<Rightarrow> SessionMessage option" where
  "getLastAssistantMessage messages =
     List.find (\<lambda>m. messageRole m = Some (js ''assistant'')) (rev messages)"

text \<open>
  The events the supervisor listens to. The tool name of an event is \<open>None\<close> when the event
  carries none; the flag of \<open>ToolExecutionEnd\<close> is the truth value of \<open>event.isError\<close>.
\<close>

datatype SessionEvent =
  TurnEnd
| ToolExecutionStart "jsstring option"
| ToolExecutionEnd "jsstring option" bool
| MessageUpdate
| MessageEnd SessionMessage
| OtherEvent

record RunState =
  details :: ReplicantSubprocessDetails
  finalText :: jsstring
  abortedBySignal :: bool

definition truthyString :: "jsstring option \<Rightarrow> jsstring option" where
  \<comment> \<open>The string when it passes a test \<open>if (s)\<close>: it is defined and not empty.\<close>
  "truthyString s = (case s of None \<Rightarrow> None | Some t \<Rightarrow> if t = [] then None else Some t)"

definition nameOrUnknown :: "jsstring option \<Rightarrow> jsstring" where
  "nameOrUnknown n = (case n of Some t \<Rightarrow> t | None \<Rightarrow> js ''unknown'')"

definition pushEvent :: "ToolEvent \<Rightarrow> ToolEvent list \<Rightarrow> ToolEvent list" where
  \<comment> \<open>\<open>events.push(e); if (events.length > MAX_EVENTS_TO_KEEP) events.shift()\<close>\<close>
  "pushEvent e es = (if length (es @ [e]) > MAX_EVENTS_TO_KEEP then tl (es @ [e]) else es @ [e])"

definition takeMessage :: "SessionMessage \<Rightarrow> RunState \<Rightarrow> RunState" where
  \<comment> \<open>What the listener (on \<open>message_end\<close>) and the look at the message log after the prompt
      both do with an assistant message: a non-empty text replaces the final text, a string
      stop reason replaces the stop reason, an error message that is not blank is kept
      trimmed.\<close>
  "takeMessage m st =
     (let text = extractAssistantText m;
          d = details st;
          d1 = (case messageStopReason m of Some r \<Rightarrow> d\<lparr>stopReason := Some r\<rparr> | None \<Rightarrow> d);
          d2 = (case messageErrorMessage m of
                  Some e \<Rightarrow> if trim e \<noteq> [] then d1\<lparr>errorMessage := Some (trim e)\<rparr> else d1
                | None \<Rightarrow> d1)
      in st\<lparr>finalText := (if text \<noteq> [] then text else finalText st), details := d2\<rparr>)"

fun onSessionEvent :: "SessionEvent \<Rightarrow> RunState \<Rightarrow> RunState" where
  "onSessionEvent TurnEnd st = st\<lparr>details := (details st)\<lparr>turns := turns (details st) + 1\<rparr>\<rparr>"
| "onSessionEvent (ToolExecutionStart name) st =
     st\<lparr>details := (details st)
        \<lparr>phase := Exploring,
         toolCalls := toolCalls (details st) + 1,
         events := pushEvent \<lparr>eventType = ToolStart, toolName = nameOrUnknown name, isError = None\<rparr>
                     (events (details st)),
         message := js ''running '' @ nameOrUnknown name\<rparr>\<rparr>"
| "onSessionEvent (ToolExecutionEnd name failed) st =
     st\<lparr>details := (details st)
        \<lparr>phase := Exploring,
         toolErrors := (if failed then toolErrors (details st) + 1 else toolErrors (details st)),
         events := pushEvent \<lparr>eventType = ToolEnd, toolName = nameOrUnknown name, isError = Some failed\<rparr>
                     (events (details st)),
         message := (if failed then js ''tool failed: '' else js ''tool finished: '') @ nameOrUnknown name\<rparr>\<rparr>"
| "onSessionEvent MessageUpdate st =
     st\<lparr>details := (details st)\<lparr>phase := Writing, message := js ''writing findings''\<rparr>\<rparr>"
| "onSessionEvent (MessageEnd m) st =
     (if messageRole m = Some (js ''assistant'') then
        (let st1 = takeMessage m st
         in st1\<lparr>details := (details st1)\<lparr>phase := Writing, message := js ''received assistant message''\<rparr>\<rparr>)
      else st)"
| "onSessionEvent OtherEvent st = st"

text \<open>
  What can happen between the creation of the session and the settling of its prompt call:
  the session delivers an event, the cancellation signal fires (a signal that has fired
  before the run is a \<open>SignalAborts\<close> at the start), or the heartbeat timer ticks. The
  status callback \<open>onUpdate\<close> and the request \<open>session.abort()\<close> made when the signal fires
  act outside the run's own state and are not modelled.
\<close>

datatype RunStep = SessionEmits SessionEvent | SignalAborts | HeartbeatTick

fun runStep :: "RunState \<Rightarrow> RunStep \<Rightarrow> RunState" where
  "runStep st (SessionEmits e) = onSessionEvent e st"
| "runStep st SignalAborts = st\<lparr>abortedBySignal := True, details := (details st)\<lparr>phase := Aborted\<rparr>\<rparr>"
| "runStep st HeartbeatTick =
     (if phase (details st) = Done \<or> phase (details st) = Error \<or> phase (details st) = Aborted then st
      else st\<lparr>details := (details st)
             \<lparr>message := (if phase (details st) = Exploring then js ''exploring codebase''
                           else js ''waiting for output'')\<rparr>\<rparr>)"

subsection \<open>Truncation of the final text\<close>

text \<open>
  Modelled from the spec: \<open>truncateHead\<close> and the two limits \<open>DEFAULT_MAX_BYTES\<close> and
  \<open>DEFAULT_MAX_LINES\<close> come from the agent library that the supervisor imports; they are
  not among the sources. The definitions of this subsection follow the specification: the
  final text is truncated ``to a fixed maximum byte/line ceiling, from the head''; a text
  ``exceeding the configured line ceiling must be truncated to exactly that many lines'';
  a text ``at or below the ceiling'' comes back unmodified. So a text within both limits
  comes back as it is and not marked truncated, and of a text beyond a limit the whole
  leading lines are kept, as many as there are within both limits. The bytes of a text
  are those of its UTF-8 encoding. The run takes the function as a parameter.
\<close>

fun utf8Length :: "jsstring \<Rightarrow> nat" where
  \<comment> \<open>Modelled from the spec: the number of bytes of the UTF-8 encoding of a string. A code
      unit below U+0080 takes one byte, one below U+0800 two, a high surrogate followed by
      a low surrogate four for the pair, and any other code unit three (a surrogate that
      stands alone is encoded as U+FFFD).\<close>
  "utf8Length [] = 0"
| "utf8Length [u] = (if u < 0x80 then 1 else if u < 0x800 then 2 else 3)"
| "utf8Length (u # v # us) =
     (if u < 0x80 then 1 + utf8Length (v # us)
      else if u < 0x800 then 2 + utf8Length (v # us)
      else if 0xD800 \<le> u \<and> u < 0xDC00 \<and> 0xDC00 \<le> v \<and> v < 0xE000 then 4 + utf8Length us
      else 3 + utf8Length (v # us))"

definition withinCeiling :: "nat \<Rightarrow> nat \<Rightarrow> jsstring \<Rightarrow> bool" where
  \<comment> \<open>Modelled from the spec: the text is at or below the ceiling, in lines and in bytes.\<close>
  "withinCeiling maxBytes maxLines content \<longleftrightarrow>
     length (split_on 0x0A content) \<le> maxLines \<and> utf8Length content \<le> maxBytes"

fun takeFitting :: "nat \<Rightarrow> nat \<Rightarrow> bool \<Rightarrow> jsstring list \<Rightarrow> jsstring list" where
  \<comment> \<open>Modelled from the spec: the leading lines that fit in \<open>maxBytes\<close>; every line after the
      first costs one more byte for the line feed before it.\<close>
  "takeFitting maxBytes used isFirst [] = []"
| "takeFitting maxBytes used isFirst (l # ls) =
     (let lineBytes = utf8Length l + (if isFirst then 0 else 1)
      in if used + lineBytes > maxBytes then []
         else l # takeFitting maxBytes (used + lineBytes) False ls)"

definition headLines :: "nat \<Rightarrow> nat \<Rightarrow> jsstring \<Rightarrow> jsstring list" where
  \<comment> \<open>Modelled from the spec: the lines kept of a text beyond the ceiling, at most
      \<open>maxLines\<close> of them.\<close>
  "headLines maxBytes maxLines content =
     takeFitting maxBytes 0 True (take maxLines (split_on 0x0A content))"

definition truncateHead :: "nat \<Rightarrow> nat \<Rightarrow> jsstring \<Rightarrow> jsstring \<times> bool" where
  \<comment> \<open>Modelled from the spec: the pair of \<open>content\<close> and \<open>truncated\<close>.\<close>
  "truncateHead maxBytes maxLines content =
     (if withinCeiling maxBytes maxLines content then (content, False)
      else (join [0x0A] (headLines maxBytes maxLines content), True))"

definition truncationMarker :: jsstring where
  "truncationMarker = [0x0A, 0x0A] @ js ''[replicant output truncated]''"

subsection \<open>The run\<close>

text \<open>
  A run ends by throwing an error (\<open>Rejected\<close>, with the error's message) or by returning
  (\<open>Resolved\<close>, with the final text). Both carry the details record as the run leaves it.
\<close>

datatype RunOutcome =
  Rejected jsstring ReplicantSubprocessDetails
| Resolved jsstring ReplicantSubprocessDetails

fun outcomeDetails :: "RunOutcome \<Rightarrow> ReplicantSubprocessDetails" where
  "outcomeDetails (Rejected _ d) = d"
| "outcomeDetails (Resolved _ d) = d"

fun outcomeText :: "RunOutcome \<Rightarrow> jsstring option" where
  "outcomeText (Rejected _ _) = None"
| "outcomeText (Resolved finalOutput _) = Some finalOutput"

fun isResolved :: "RunOutcome \<Rightarrow> bool" where
  "isResolved (Rejected _ _) = False"
| "isResolved (Resolved _ _) = True"

definition stopReasonError :: "jsstring \<Rightarrow> jsstring option \<Rightarrow> jsstring" where
  \<comment> \<open>The message of the error thrown for a stop reason \<open>error\<close> or \<open>aborted\<close>.\<close>
  "stopReasonError reason err =
     (case truthyString err of
        Some e \<Rightarrow> js ''Replicant subagent reported stopReason='' @ reason @ js '': '' @ e
      | None \<Rightarrow> js ''Replicant subagent reported stopReason='' @ reason @ js ''.'')"

definition settle ::
  "(jsstring \<Rightarrow> jsstring \<times> bool) \<Rightarrow> ReplicantPolicyState \<Rightarrow> jsstring option \<Rightarrow> RunState \<Rightarrow> RunOutcome" where
  \<comment> \<open>The choice of the terminal outcome, from the policy state, the error of the prompt call
      (if it threw) and the state of the run after the look at the message log.
      \<open>truncateHeadFn\<close> is the library's \<open>truncateHead\<close> at the limits of the final text.\<close>
  "settle truncateHeadFn policy promptError st =
     (let d = details st in
      (case truthyString (violation policy) of
         Some v \<Rightarrow> Rejected v (d\<lparr>phase := Error, errorMessage := Some v, exitCode := Some 1\<rparr>)
       | None \<Rightarrow>
          (if abortedBySignal st then
             Rejected (js ''Replicant subagent was aborted.'') (d\<lparr>phase := Aborted, exitCode := Some 1\<rparr>)
           else
             (case promptError of
                Some e \<Rightarrow> Rejected e (d\<lparr>phase := Error, errorMessage := Some e, exitCode := Some 1\<rparr>)
              | None \<Rightarrow>
                 (case (if trim (finalText st) = [] then truthyString (turnBudgetBlocked policy) else None) of
                    Some b \<Rightarrow>
                      Rejected b (d\<lparr>phase := Error, errorMessage := Some b, exitCode := Some 1\<rparr>)
                  | None \<Rightarrow>
                     (if stopReason d = Some (js ''error'') then
                        Rejected (stopReasonError (js ''error'') (errorMessage d))
                          (d\<lparr>phase := Error, exitCode := Some 1\<rparr>)
                      else if stopReason d = Some (js ''aborted'') then
                        Rejected (stopReasonError (js ''aborted'') (errorMessage d))
                          (d\<lparr>phase := Aborted, exitCode := Some 1\<rparr>)
                      else
                        (case truncateHeadFn
                                (if finalText st = [] then js ''(no output)'' else finalText st) of
                           (content, truncated) \<Rightarrow>
                             Resolved (if truncated then content @ truncationMarker else content)
                               (d\<lparr>finalTextTruncated := truncated, phase := Done, exitCode := Some 0,
                                  message := js ''completed''\<rparr>))))))))"

text \<open>
  The session is outside the repository. What it does during one run is given to the model:
  whether the session factory throws, the steps between the session's creation and the
  settling of the prompt call, the error of the prompt call if it throws, the message log
  and the policy state (which the policy hook writes inside the session) at that moment.
\<close>

record SessionBehaviour =
  factoryError :: "jsstring option"
  steps :: "RunStep list"
  promptError :: "jsstring option"
  messages :: "SessionMessage list"
  policyAfter :: ReplicantPolicyState

definition bootState :: "JSNumber option \<Rightarrow> JSNumber option \<Rightarrow> RunState" where
  \<comment> \<open>The state when the session factory is called, after \<open>emit("booting in-process session")\<close>.\<close>
  "bootState optMaxTurns optMaxToolCalls =
     \<lparr>details = (initialDetails (effectiveMaxTurns optMaxTurns) (effectiveMaxToolCalls optMaxToolCalls))
                   \<lparr>message := js ''booting in-process session''\<rparr>,
      finalText = [], abortedBySignal = False\<rparr>"

definition settledState :: "JSNumber option \<Rightarrow> JSNumber option \<Rightarrow> SessionBehaviour \<Rightarrow> RunState" where
  \<comment> \<open>The state after the prompt call has settled and the last assistant message of the log
      has been looked at.\<close>
  "settledState optMaxTurns optMaxToolCalls b =
     (let st = foldl runStep (bootState optMaxTurns optMaxToolCalls) (steps b)
      in case getLastAssistantMessage (messages b) of
           Some lastAssistant \<Rightarrow> takeMessage lastAssistant st
         | None \<Rightarrow> st)"

definition runReplicantSubprocess ::
  "(jsstring \<Rightarrow> jsstring \<times> bool) \<Rightarrow> JSNumber option \<Rightarrow> JSNumber option \<Rightarrow> SessionBehaviour
     \<Rightarrow> RunOutcome" where
  "runReplicantSubprocess truncateHeadFn optMaxTurns optMaxToolCalls b =
     (case factoryError b of
        Some e \<Rightarrow> Rejected e (details (bootState optMaxTurns optMaxToolCalls))
      | None \<Rightarrow>
          settle truncateHeadFn (policyAfter b) (promptError b)
            (settledState optMaxTurns optMaxToolCalls b))"

text \<open>
  What the session factory is given of the budgets, and the default session's policy hook:
  the hook of \<open>createPolicyExtension\<close> on the resolved scope and these budgets.
\<close>

record ReplicantSessionFactoryInput =
  factoryMaxTurns :: int
  factoryMaxToolCalls :: int
  factoryPolicyState :: ReplicantPolicyState

definition sessionFactoryInput :: "JSNumber option \<Rightarrow> JSNumber option \<Rightarrow> ReplicantSessionFactoryInput" where
  "sessionFactoryInput optMaxTurns optMaxToolCalls =
     \<lparr>factoryMaxTurns = effectiveMaxTurns optMaxTurns,
      factoryMaxToolCalls = effectiveMaxToolCalls optMaxToolCalls,
      factoryPolicyState = \<lparr>turnIndex = 0, toolCalls = 0, violation = None, turnBudgetBlocked = None\<rparr>\<rparr>"

definition resolveScope :: "jsstring \<Rightarrow> jsstring \<Rightarrow> (jsstring list \<times> jsstring list option) option \<Rightarrow> ResolvedScope" where
  \<comment> \<open>The optional scope is a pair of \<open>allowedRoots\<close> and the optional \<open>allowedFiles\<close>.\<close>
  "resolveScope pcwd workDir scopeOpt =
     \<lparr>cwd = workDir,
      allowedRoots = map (\<lambda>root. path_resolve pcwd [workDir, root])
                       (case scopeOpt of Some (roots, _) \<Rightarrow> roots | None \<Rightarrow> []),
      allowedFiles = map (\<lambda>file. path_resolve pcwd [workDir, file])
                       (case scopeOpt of Some (_, Some files) \<Rightarrow> files | _ \<Rightarrow> [])\<rparr>"

definition defaultSessionHook ::
  "jsstring \<Rightarrow> jsstring \<Rightarrow> (jsstring list \<times> jsstring list option) option \<Rightarrow> ReplicantSessionFactoryInput
     \<Rightarrow> jsstring \<Rightarrow> ToolInput \<Rightarrow> ReplicantPolicyState \<Rightarrow> HookOutcome" where
  "defaultSessionHook pcwd workDir scopeOpt factoryInput =
     onToolCall pcwd (resolveScope pcwd workDir scopeOpt)
       (factoryMaxTurns factoryInput) (factoryMaxToolCalls factoryInput)"

section \<open>The repository resolver\<close>

subsection \<open>The host: the mapping tool, the file system and the user interface\<close>

text \<open>
  The resolver runs the command \<open>ow\<close> through \<open>pi.exec\<close>, reads file kinds with \<open>fs.stat\<close>
  and may ask the user. These belong to the host, not to the repository; the model takes
  them as functions over a state of the world \<open>'w\<close>, which a command may change.
  \<open>parseMapShow\<close> and \<open>parseMapSearch\<close> stand for \<open>JSON.parse\<close> on the output of a command,
  \<open>None\<close> when it throws; a text that parses is taken to have the declared shape.
  \<open>numberText\<close> is the text of a number in a template string. The status callback
  \<open>onStatus\<close> and the \<open>details\<close> payload of an error are left out of the model.
\<close>

record OwExecResult =
  stdout :: jsstring
  stderr :: jsstring
  code :: int

datatype FileKind = Directory | RegularFile | OtherFile

text \<open>
  An entry of \<open>ow map show\<close>. \<open>undeclaredFullName\<close> is the property \<open>fullName\<close> of the parsed
  object, which the declared type does not have but \<open>toRepoSlug\<close> tests for; the
  properties \<open>primary\<close> and \<open>keywords\<close> are never read.
\<close>

record MapShowJson =
  found :: bool
  scope :: "jsstring option"
  qualifiedName :: "jsstring option"
  undeclaredFullName :: "jsstring option"
  localPath :: "jsstring option"
  referencePath :: "jsstring option"

text \<open>A match of \<open>ow map search\<close>, with the two properties the resolver reads.\<close>

record Candidate =
  fullName :: jsstring
  score :: real

record 'w Host =
  exec :: "jsstring list \<Rightarrow> 'w \<Rightarrow> OwExecResult \<times> 'w"
  parseMapShow :: "jsstring \<Rightarrow> MapShowJson option"
  parseMapSearch :: "jsstring \<Rightarrow> Candidate list option"
  stat :: "jsstring \<Rightarrow> 'w \<Rightarrow> FileKind option"
  hasUI :: bool
  select :: "jsstring \<Rightarrow> jsstring list \<Rightarrow> jsstring option"
  confirm :: "jsstring \<Rightarrow> jsstring \<Rightarrow> bool"
  numberText :: "real \<Rightarrow> jsstring"

datatype ErrorCode =
  ow_missing | repo_unresolved | repo_ambiguous | missing_assets | pull_rejected | pull_failed
| invalid_map

text \<open>An error of the resolver: its message, its code and its remediation.\<close>

datatype ReplicantOffworldError = OffworldError jsstring ErrorCode "jsstring option"

fun errorCode :: "ReplicantOffworldError \<Rightarrow> ErrorCode" where
  "errorCode (OffworldError _ c _) = c"

datatype ResolvedFrom = Existing | Pulled

record ResolvedRepo =
  repo :: jsstring
  qualifiedName :: jsstring
  scope :: jsstring
  clonePath :: jsstring
  referencePath :: jsstring
  resolvedFrom :: ResolvedFrom
  searchCandidates :: "(jsstring \<times> real) list"

subsection \<open>More path functions of the runtime\<close>

definition path_normalize :: "jsstring \<Rightarrow> jsstring" where
  \<comment> \<open>\<open>path.normalize\<close> (POSIX)\<close>
  "path_normalize p =
     (if p = [] then js ''.''
      else
        (let absolute = isAbsolute p;
             trailingSeparator = (last p = cu CHR ''/'');
             normalized = join (js ''/'') (normalizeSegments (\<not> absolute) [] (split_on (cu CHR ''/'') p))
         in if normalized = [] then
              (if absolute then js ''/'' else if trailingSeparator then js ''./'' else js ''.'')
            else (if absolute then js ''/'' else []) @ normalized
                   @ (if trailingSeparator then js ''/'' else [])))"

definition path_join :: "jsstring list \<Rightarrow> jsstring" where
  \<comment> \<open>\<open>path.join\<close> (POSIX): the non-empty arguments joined with slashes, normalized.\<close>
  "path_join args =
     (case filter (\<lambda>a. a \<noteq> []) args of
        [] \<Rightarrow> js ''.''
      | nonEmpty \<Rightarrow> path_normalize (join (js ''/'') nonEmpty))"

subsection \<open>The resolver's functions\<close>

definition pathIsDir :: "'w Host \<Rightarrow> jsstring \<Rightarrow> 'w \<Rightarrow> bool" where
  "pathIsDir host p w \<longleftrightarrow> stat host p w = Some Directory"

definition pathIsFile :: "'w Host \<Rightarrow> jsstring \<Rightarrow> 'w \<Rightarrow> bool" where
  "pathIsFile host p w \<longleftrightarrow> stat host p w = Some RegularFile"

definition pathLooksLikeClone :: "'w Host \<Rightarrow> jsstring \<Rightarrow> 'w \<Rightarrow> bool" where
  "pathLooksLikeClone host repoPath w \<longleftrightarrow>
     (if \<not> pathIsDir host repoPath w then False
      else (case stat host (path_join [repoPath, js ''.git'']) w of
              Some Directory \<Rightarrow> True
            | Some RegularFile \<Rightarrow> True
            | _ \<Rightarrow> False))"

definition toRepoSlug :: "jsstring option \<Rightarrow> jsstring option \<Rightarrow> jsstring" where
  \<comment> \<open>The arguments are the properties \<open>fullName\<close> and \<open>qualifiedName\<close> of the entry, \<open>None\<close>
      for a property the entry does not have.\<close>
  "toRepoSlug entryFullName entryQualifiedName =
     (case entryFullName of
        Some f \<Rightarrow> f
      | None \<Rightarrow>
          (let q = (case entryQualifiedName of Some n \<Rightarrow> n | None \<Rightarrow> [])
           in if (cu CHR '':'') \<in> set q
              then (case split_on (cu CHR '':'') q of _ # second # _ \<Rightarrow> second | _ \<Rightarrow> q)
              else q))"

definition owCommandHead :: "jsstring list \<Rightarrow> jsstring" where
  "owCommandHead args =
     (case args of
        [] \<Rightarrow> join (js '' '') (take 2 args)
      | a # _ \<Rightarrow>
          if a = js ''--version'' then js ''--version''
          else if a = js ''pull'' then js ''pull''
          else join (js '' '') (take 2 args))"

definition runOw ::
  "'w Host \<Rightarrow> jsstring list \<Rightarrow> 'w \<Rightarrow> (ReplicantOffworldError + OwExecResult) \<times> 'w" where
  "runOw host args w =
     (if owCommandHead args \<notin> set [js ''--version'', js ''map show'', js ''map search'', js ''pull'']
      then (Inl (OffworldError (js ''Disallowed ow command: ow '' @ join (js '' '') args) invalid_map None), w)
      else (case exec host args w of (result, w') \<Rightarrow> (Inr result, w')))"

definition ensureOwInstalled :: "'w Host \<Rightarrow> 'w \<Rightarrow> (ReplicantOffworldError + unit) \<times> 'w" where
  "ensureOwInstalled host w =
     (case runOw host [js ''--version''] w of
        (Inl e, w') \<Rightarrow> (Inl e, w')
      | (Inr result, w') \<Rightarrow>
          (if code result \<noteq> 0 then
             (Inl (OffworldError (js ''Offworld CLI ('' @ [0x60] @ js ''ow'' @ [0x60] @ js '') is not available.'')
                     ow_missing
                     (Some (js ''Install Offworld: curl -fsSL https://offworld.sh/install | bash''))), w')
           else (Inr (), w')))"

definition mapShow ::
  "'w Host \<Rightarrow> jsstring \<Rightarrow> 'w \<Rightarrow> (ReplicantOffworldError + MapShowJson) \<times> 'w" where
  "mapShow host repoName w =
     (case runOw host [js ''map'', js ''show'', repoName, js ''--json''] w of
        (Inl e, w') \<Rightarrow> (Inl e, w')
      | (Inr result, w') \<Rightarrow>
          (if code result \<noteq> 0 then
             (Inl (OffworldError (js ''Failed to run ow map show '' @ repoName @ js '' --json.'') invalid_map None), w')
           else (case parseMapShow host (stdout result) of
                   None \<Rightarrow>
                     (Inl (OffworldError (js ''Failed to parse JSON from ow map show '' @ repoName @ js '' --json.'')
                             invalid_map None), w')
                 | Some entry \<Rightarrow> (Inr entry, w'))))"

definition mapSearch ::
  "'w Host \<Rightarrow> jsstring \<Rightarrow> 'w \<Rightarrow> (ReplicantOffworldError + Candidate list) \<times> 'w" where
  "mapSearch host searchTerm w =
     (case runOw host [js ''map'', js ''search'', searchTerm, js ''--json''] w of
        (Inl e, w') \<Rightarrow> (Inl e, w')
      | (Inr result, w') \<Rightarrow>
          (if code result \<noteq> 0 then
             (Inl (OffworldError (js ''Failed to run ow map search '' @ searchTerm @ js '' --json.'') invalid_map None), w')
           else (case parseMapSearch host (stdout result) of
                   None \<Rightarrow>
                     (Inl (OffworldError (js ''Failed to parse JSON from ow map search '' @ searchTerm @ js '' --json.'')
                             invalid_map None), w')
                 | Some matches \<Rightarrow> (Inr matches, w'))))"

function collapseSpaces :: "jsstring \<Rightarrow> jsstring" where
  \<comment> \<open>\<open>s.replace(/\s+/g, " ")\<close>\<close>
  "collapseSpaces [] = []"
| "collapseSpaces (c # cs) =
     (if is_space c then cu CHR '' '' # collapseSpaces (dropWhile is_space cs)
      else c # collapseSpaces cs)"
  by pat_completeness auto
termination
  by (relation "measure length") (auto simp: length_dropWhile_le less_Suc_eq_le)

definition extractSearchTerm :: "jsstring \<Rightarrow> jsstring" where
  "extractSearchTerm task = take 120 (collapseSpaces (trim task))"

definition candidateLabel :: "'w Host \<Rightarrow> Candidate \<Rightarrow> jsstring" where
  "candidateLabel host c = fullName c @ js '' (score '' @ numberText host (score c) @ js '')''"

definition matchesScoreSuffix :: "jsstring \<Rightarrow> bool" where
  \<comment> \<open>The whole string matches \<open>\s+\(score [^)]+\)\s*\<close>.\<close>
  "matchesScoreSuffix s =
     (let afterSpaces = dropWhile is_space s;
          afterScore = drop 7 afterSpaces;
          inner = takeWhile (\<lambda>c. c \<noteq> cu CHR '')'') afterScore;
          closing = dropWhile (\<lambda>c. c \<noteq> cu CHR '')'') afterScore
      in takeWhile is_space s \<noteq> [] \<and> take 7 afterSpaces = js ''(score '' \<and> inner \<noteq> []
         \<and> closing \<noteq> [] \<and> list_all is_space (tl closing))"

fun stripScoreSuffix :: "jsstring \<Rightarrow> jsstring" where
  \<comment> \<open>\<open>picked.replace(/\s+\(score [^)]+\)\s*$/, "")\<close>: the text before the first place from
      which the rest of the string matches.\<close>
  "stripScoreSuffix [] = []"
| "stripScoreSuffix (c # cs) =
     (if matchesScoreSuffix (c # cs) then [] else c # stripScoreSuffix cs)"

definition selectCandidate :: "'w Host \<Rightarrow> Candidate list \<Rightarrow> ReplicantOffworldError + Candidate" where
  "selectCandidate host candidates =
     (case candidates of
        [only] \<Rightarrow> Inr only
      | _ \<Rightarrow>
          (let top = take (min 6 (length candidates)) candidates
           in if hasUI host then
                (case truthyString (select host (js ''Choose repository for replicant'')
                                      (map (candidateLabel host) top)) of
                   None \<Rightarrow>
                     Inl (OffworldError (js ''Repository selection canceled.'') repo_unresolved
                            (Some (js ''Re-run with an explicit '' @ [0x60] @ js ''repo'' @ [0x60] @ js '' value.'')))
                 | Some picked \<Rightarrow>
                     (case List.find (\<lambda>c. candidateLabel host c = picked) top of
                        Some c \<Rightarrow> Inr c
                      | None \<Rightarrow>
                          (case List.find (\<lambda>c. fullName c = stripScoreSuffix picked) top of
                             Some c \<Rightarrow> Inr c
                           | None \<Rightarrow>
                               Inl (OffworldError (js ''Repository selection did not match available candidates.'')
                                      repo_ambiguous
                                      (Some (js ''Re-run with an explicit '' @ [0x60] @ js ''repo'' @ [0x60]
                                             @ js '' value.''))))))
              else
                Inl (OffworldError
                       (js ''Multiple Offworld map matches found; repository is ambiguous in non-interactive mode.'')
                       repo_ambiguous
                       (Some (js ''Re-run with an explicit '' @ [0x60] @ js ''repo'' @ [0x60]
                              @ js '' value (e.g. '' @ [0x60] @ js ''repo: '' @ [0x22] @ js ''owner/repo''
                              @ [0x22] @ [0x60] @ js '').'')))))"

definition buildPullArgs :: "jsstring \<Rightarrow> jsstring list" where
  "buildPullArgs repoName = [js ''pull'', repoName, js ''--clone-only'']"

definition formatOwCommand :: "jsstring list \<Rightarrow> jsstring" where
  "formatOwCommand args = js ''ow '' @ join (js '' '') args"

definition pullRepo :: "'w Host \<Rightarrow> jsstring \<Rightarrow> 'w \<Rightarrow> (ReplicantOffworldError + unit) \<times> 'w" where
  "pullRepo host repoName w =
     (case runOw host (buildPullArgs repoName) w of
        (Inl e, w') \<Rightarrow> (Inl e, w')
      | (Inr result, w') \<Rightarrow>
          (if code result \<noteq> 0 then
             (Inl (OffworldError (js ''Failed to pull '' @ repoName @ js ''.'') pull_failed
                     (Some (js ''Run manually: '' @ formatOwCommand (buildPullArgs repoName)))), w')
           else (Inr (), w')))"

definition usableReferencePath :: "'w Host \<Rightarrow> jsstring \<Rightarrow> 'w \<Rightarrow> jsstring" where
  \<comment> \<open>\<open>resolvedReferencePath\<close>: the reference path when \<open>referenceOk\<close> holds, else the empty string.\<close>
  "usableReferencePath host refPath w =
     (if refPath \<noteq> [] \<and> \<not> endsWith refPath (js ''/'') \<and> \<not> endsWith refPath [0x5C]
         \<and> pathIsFile host refPath w
      then refPath else [])"

definition validateAssets ::
  "'w Host \<Rightarrow> 'w \<Rightarrow> jsstring \<Rightarrow> ResolvedFrom \<Rightarrow> MapShowJson \<Rightarrow> (jsstring \<times> real) list
     \<Rightarrow> (ReplicantOffworldError + ResolvedRepo) \<times> 'w" where
  \<comment> \<open>The end of \<open>resolveRepoWithOffworld\<close>, from the reading of \<open>clonePath\<close> on, for the map
      entry \<open>entry\<close> that is current there.\<close>
  "validateAssets host w effectiveRepo origin entry candidates =
     (let cloneDir = (case localPath entry of Some p \<Rightarrow> p | None \<Rightarrow> []);
          refPath = (case MapShowJson.referencePath entry of Some p \<Rightarrow> p | None \<Rightarrow> []);
          cloneOk = (cloneDir \<noteq> [] \<and> pathLooksLikeClone host cloneDir w);
          resolvedReferencePath = usableReferencePath host refPath w
      in if \<not> cloneOk then
           (Inl (OffworldError
                   (js ''Offworld map entry is incomplete after resolution for '' @ effectiveRepo
                      @ js ''. clone=false'')
                   missing_assets
                   (Some (js ''Run: ow pull '' @ effectiveRepo @ js '' --clone-only''))), w)
         else
           (Inr \<lparr>repo = effectiveRepo,
                 qualifiedName = (case MapShowJson.qualifiedName entry of
                                    Some q \<Rightarrow> q | None \<Rightarrow> js ''github.com:'' @ effectiveRepo),
                 scope = (case MapShowJson.scope entry of Some sc \<Rightarrow> sc | None \<Rightarrow> js ''unknown''),
                 clonePath = cloneDir,
                 referencePath = resolvedReferencePath,
                 resolvedFrom = origin,
                 searchCandidates = candidates\<rparr>, w))"

definition hasClone :: "'w Host \<Rightarrow> MapShowJson \<Rightarrow> 'w \<Rightarrow> bool" where
  \<comment> \<open>\<open>Boolean(show.localPath && (await pathLooksLikeClone(show.localPath)))\<close>\<close>
  "hasClone host entry w \<longleftrightarrow>
     (case truthyString (localPath entry) of
        Some p \<Rightarrow> pathLooksLikeClone host p w
      | None \<Rightarrow> False)"

definition resolveSelected ::
  "'w Host \<Rightarrow> 'w \<Rightarrow> jsstring \<Rightarrow> (jsstring \<times> real) list \<Rightarrow> (ReplicantOffworldError + ResolvedRepo) \<times> 'w" where
  \<comment> \<open>The part of \<open>resolveRepoWithOffworld\<close> after the repository has been selected, from the
      test \<open>if (!selectedRepo)\<close> on.\<close>
  "resolveSelected host w selectedRepo candidates =
     (if selectedRepo = [] then
        (Inl (OffworldError (js ''Repository could not be determined.'') repo_unresolved None), w)
      else
        (case mapShow host selectedRepo w of
           (Inl e, w1) \<Rightarrow> (Inl e, w1)
         | (Inr entry, w1) \<Rightarrow>
             (if \<not> found entry then
                (Inl (OffworldError (js ''Repository not found in Offworld map: '' @ selectedRepo)
                        repo_unresolved
                        (Some (js ''Run: ow pull '' @ selectedRepo @ js '' --clone-only''))), w1)
              else
                (let effectiveRepo =
                       toRepoSlug (undeclaredFullName entry) (MapShowJson.qualifiedName entry)
                 in if hasClone host entry w1 then
                      validateAssets host w1 effectiveRepo Existing entry candidates
                    else if hasUI host
                        \<and> \<not> confirm host (js ''Pull repository with Offworld?'')
                             (js ''Replicant needs a local clone for '' @ effectiveRepo
                                @ js ''. Run ow pull '' @ effectiveRepo @ js '' --clone-only now?'')
                    then
                      (Inl (OffworldError (js ''Pull canceled for '' @ effectiveRepo @ js ''.'') pull_rejected
                              (Some (js ''Run manually: ow pull '' @ effectiveRepo @ js '' --clone-only''))), w1)
                    else
                      (case pullRepo host effectiveRepo w1 of
                         (Inl e, w2) \<Rightarrow> (Inl e, w2)
                       | (Inr _, w2) \<Rightarrow>
                           (case mapShow host effectiveRepo w2 of
                              (Inl e, w3) \<Rightarrow> (Inl e, w3)
                            | (Inr entry2, w3) \<Rightarrow>
                                validateAssets host w3 effectiveRepo Pulled entry2 candidates))))))"

definition resolveRepoWithOffworld ::
  "'w Host \<Rightarrow> 'w \<Rightarrow> jsstring \<Rightarrow> jsstring option \<Rightarrow> jsstring option
     \<Rightarrow> (ReplicantOffworldError + ResolvedRepo) \<times> 'w" where
  \<comment> \<open>\<open>taskHint\<close> is the value of \<open>extractRepoHintFromTask(task)\<close>; the scan of the task text
      with regular expressions is not part of the model. The result is the value returned
      or the error thrown, and the world as the resolver leaves it.\<close>
  "resolveRepoWithOffworld host w task repoHint taskHint =
     (case ensureOwInstalled host w of
        (Inl e, w0) \<Rightarrow> (Inl e, w0)
      | (Inr _, w0) \<Rightarrow>
          (case truthyString (case repoHint of Some h \<Rightarrow> Some h | None \<Rightarrow> taskHint) of
             Some selectedRepo \<Rightarrow> resolveSelected host w0 selectedRepo []
           | None \<Rightarrow>
               (case mapSearch host (extractSearchTerm task) w0 of
                  (Inl e, w1) \<Rightarrow> (Inl e, w1)
                | (Inr matches, w1) \<Rightarrow>
                    (if matches = [] then
                       (Inl (OffworldError (js ''No Offworld map matches found for this task.'') repo_unresolved
                               (Some (js ''Pull a repository first, e.g. '' @ [0x60]
                                      @ js ''ow pull owner/repo --clone-only'' @ [0x60]
                                      @ js '', then retry with '' @ [0x60] @ js ''repo: '' @ [0x22]
                                      @ js ''owner/repo'' @ [0x22] @ [0x60] @ js ''.''))), w1)
                     else
                       (case selectCandidate host matches of
                          Inl e \<Rightarrow> (Inl e, w1)
                        | Inr selected \<Rightarrow>
                            resolveSelected host w1 (fullName selected)
                              (map (\<lambda>m. (fullName m, score m)) matches))))))"

text \<open>
  Two notions for comparing resolutions: a host whose map entries report other reference
  paths (\<open>g\<close> gives the path an entry reports instead), and an outcome with the reference
  path of its result blanked.
\<close>

definition withReferencePaths :: "(MapShowJson \<Rightarrow> jsstring option) \<Rightarrow> 'w Host \<Rightarrow> 'w Host" where
  "withReferencePaths g host =
     host\<lparr>parseMapShow := (\<lambda>s. map_option (\<lambda>entry. entry\<lparr>MapShowJson.referencePath := g entry\<rparr>)
                              (parseMapShow host s))\<rparr>"

definition eraseReference ::
  "(ReplicantOffworldError + ResolvedRepo) \<times> 'w \<Rightarrow> (ReplicantOffworldError + ResolvedRepo) \<times> 'w" where
  "eraseReference outcome =
     (case outcome of
        (Inl e, w) \<Rightarrow> (Inl e, w)
      | (Inr r, w) \<Rightarrow> (Inr (r\<lparr>referencePath := []\<rparr>), w))"

text \<open>
  A host for the examples. Its world is a truth value: whether the pull has run. The map
  knows \<open>acme/tools\<close>, with a clone in \<open>/tmp/clone\<close> that exists once the pull has run and a
  reference path that names a directory; \<open>/tmp/reference.md\<close> is a regular file. A
  search finds two repositories.
\<close>

definition exampleHost :: "bool Host" where
  "exampleHost =
     \<lparr>exec = (\<lambda>args w.
         if args = [js ''--version''] then (\<lparr>stdout = js ''offworld v0.3.8'', stderr = [], code = 0\<rparr>, w)
         else if args = [js ''map'', js ''show'', js ''acme/tools'', js ''--json'']
           then (\<lparr>stdout = js ''entry'', stderr = [], code = 0\<rparr>, w)
         else if args = [js ''pull'', js ''acme/tools'', js ''--clone-only'']
           then (\<lparr>stdout = js ''pulled'', stderr = [], code = 0\<rparr>, True)
         else if take 2 args = [js ''map'', js ''search'']
           then (\<lparr>stdout = js ''matches'', stderr = [], code = 0\<rparr>, w)
         else (\<lparr>stdout = [], stderr = js ''unexpected command'', code = 1\<rparr>, w)),
      parseMapShow = (\<lambda>s.
         if s = js ''entry'' then
           Some \<lparr>found = True, scope = Some (js ''global''), qualifiedName = Some (js ''github.com:acme/tools''),
                 undeclaredFullName = None, localPath = Some (js ''/tmp/clone''),
                 referencePath = Some (js ''/tmp/references/'')\<rparr>
         else None),
      parseMapSearch = (\<lambda>s.
         if s = js ''matches'' then
           Some [\<lparr>fullName = js ''acme/tools'', score = 97 / 100\<rparr>, \<lparr>fullName = js ''acme/other'', score = 11 / 100\<rparr>]
         else None),
      stat = (\<lambda>p w.
         if p = js ''/tmp/reference.md'' then Some RegularFile
         else if p = js ''/tmp/references'' \<or> p = js ''/tmp/references/'' then Some Directory
         else if w \<and> (p = js ''/tmp/clone'' \<or> p = js ''/tmp/clone/.git'') then Some Directory
         else None),
      hasUI = False,
      select = (\<lambda>title labels. None),
      confirm = (\<lambda>title question. True),
      numberText = (\<lambda>x. (js ''0''))\<rparr>"

text \<open>What the specification says of the slug: the text after the last colon.\<close>

definition afterLastColon :: "jsstring \<Rightarrow> jsstring" where
  "afterLastColon q = rev (takeWhile (\<lambda>c. c \<noteq> cu CHR '':'') (rev q))"

section \<open>Containment as the specification words it\<close>

text \<open>
  The specification asks that the resolved path ``fall within'' an allowed root ``by
  prefix-relative containment'', a path equal to the root counting as inside it. In
  terms of path segments: the segments of the root are a prefix of the segments of the
  path. \<open>belowRoot\<close> are the segments of the path that come after those of the root.
\<close>

definition containedIn :: "jsstring \<Rightarrow> jsstring \<Rightarrow> jsstring \<Rightarrow> bool" where
  "containedIn pcwd targetPath rootPath \<longleftrightarrow>
     prefix (segments (path_resolve pcwd [rootPath])) (segments (path_resolve pcwd [targetPath]))"

definition belowRoot :: "jsstring \<Rightarrow> jsstring \<Rightarrow> jsstring \<Rightarrow> jsstring list" where
  "belowRoot pcwd targetPath rootPath =
     drop (length (segments (path_resolve pcwd [rootPath]))) (segments (path_resolve pcwd [targetPath]))"

definition dotDotName :: "jsstring list \<Rightarrow> bool" where
  \<comment> \<open>The first of the segments is a name that begins with two dots.\<close>
  "dotDotName segs \<longleftrightarrow> (case segs of [] \<Rightarrow> False | s # _ \<Rightarrow> startsWith s (js ''..''))"

section \<open>Properties of the string and path functions\<close>

text \<open>Literals are evaluated to their code units.\<close>

lemma cu_code_unit [simp]: "cu c = of_char c"
  by (simp add: cu_def)

lemma js_Nil [simp]: "js [] = []"
  by (simp add: js_def)

lemma js_Cons [simp]: "js (c # s) = of_char c # js s"
  by (simp add: js_def)

lemma split_on_nonempty: "split_on c p \<noteq> []"
  by (induction p) (auto split: list.splits)

lemma split_on_append: "split_on c (a @ c # b) = split_on c a @ split_on c b"
  by (induction a) (auto split: list.splits simp: split_on_nonempty)

lemma split_on_no_sep: "c \<notin> set s \<Longrightarrow> split_on c s = [s]"
  by (induction s) (auto split: list.splits)

lemma split_on_no_sep_in: "s \<in> set (split_on c p) \<Longrightarrow> c \<notin> set s"
  by (induction p arbitrary: s) (auto split: list.splits if_splits)

lemma join_Cons_Cons: "join sep ((x # y) # ys) = x # join sep (y # ys)"
  by (cases ys) auto

lemma join_split_on: "join [c] (split_on c p) = p"
proof (induction p)
  case Nil
  show ?case by simp
next
  case (Cons x xs)
  obtain y ys where sp: "split_on c xs = y # ys"
    using split_on_nonempty[of c xs] by (cases "split_on c xs") auto
  with Cons show ?case by (auto simp: join_Cons_Cons)
qed

lemma join_append:
  "xs \<noteq> [] \<Longrightarrow> ys \<noteq> [] \<Longrightarrow> join sep (xs @ ys) = join sep xs @ sep @ join sep ys"
proof (induction xs)
  case Nil
  then show ?case by simp
next
  case (Cons x xs)
  show ?case
  proof (cases xs)
    case Nil
    with Cons.prems show ?thesis by (cases ys) auto
  next
    case (Cons z zs)
    with Cons.IH Cons.prems show ?thesis by simp
  qed
qed

text \<open>A piece of a split string stands in it between separators or the ends of the string.\<close>

lemma in_split_decomp:
  assumes "s \<in> set (split_on c p)"
  shows "p = s \<or> (\<exists>b. p = s @ c # b) \<or> (\<exists>a. p = a @ c # s) \<or> (\<exists>a b. p = a @ c # s @ c # b)"
proof -
  from assms obtain pre post where sp: "split_on c p = pre @ s # post"
    by (meson split_list)
  have p: "p = join [c] (pre @ s # post)"
    using join_split_on[of c p] sp by simp
  show ?thesis
  proof (cases "pre = []")
    case True
    show ?thesis
    proof (cases "post = []")
      case True
      with \<open>pre = []\<close> p show ?thesis by simp
    next
      case False
      then have "join [c] ([s] @ post) = join [c] [s] @ [c] @ join [c] post"
        by (intro join_append) auto
      with \<open>pre = []\<close> p show ?thesis by simp
    qed
  next
    case False
    then have 1: "p = join [c] pre @ [c] @ join [c] (s # post)"
      using p join_append[of pre "s # post" "[c]"] by simp
    show ?thesis
    proof (cases "post = []")
      case True
      with 1 show ?thesis by simp
    next
      case False
      then have "join [c] ([s] @ post) = join [c] [s] @ [c] @ join [c] post"
        by (intro join_append) auto
      with 1 have "p = join [c] pre @ c # s @ c # join [c] post" by simp
      then show ?thesis by blast
    qed
  qed
qed

lemma in_split_first: "c \<notin> set s \<Longrightarrow> s \<in> set (split_on c (s @ c # b))"
  by (simp add: split_on_append split_on_no_sep)

lemma in_split_last: "c \<notin> set s \<Longrightarrow> s \<in> set (split_on c (a @ c # s))"
  by (simp add: split_on_append split_on_no_sep)

lemma in_split_middle: "c \<notin> set s \<Longrightarrow> s \<in> set (split_on c (a @ c # s @ c # b))"
  by (simp add: split_on_append split_on_no_sep)

lemma dropWhile_keep:
  "x \<noteq> [] \<Longrightarrow> \<not> P (hd x) \<Longrightarrow> dropWhile P (a @ x @ b) = dropWhile P a @ x @ b"
  by (induction a) (auto simp: neq_Nil_conv)

text \<open>Trimming leaves alone whatever stands between two code units that are not white space.\<close>

lemma trim_middle:
  assumes "x \<noteq> []" "\<not> is_space (hd x)" "\<not> is_space (last x)"
  shows "trim (a @ x @ b) = dropWhile is_space a @ x @ rev (dropWhile is_space (rev b))"
proof -
  have "dropWhile is_space (rev b @ rev x @ rev (dropWhile is_space a))
          = dropWhile is_space (rev b) @ rev x @ rev (dropWhile is_space a)"
    using assms by (intro dropWhile_keep) (auto simp: hd_rev)
  then show ?thesis
    using assms by (simp add: trim_def dropWhile_keep)
qed

text \<open>Trimming leaves nothing exactly of a string that is empty or all white space.\<close>

lemma trim_empty_iff: "trim s = [] \<longleftrightarrow> (\<forall>u \<in> set s. is_space u)"
proof
  assume "trim s = []"
  then have "\<forall>u \<in> set (dropWhile is_space s). is_space u"
    by (simp add: trim_def dropWhile_eq_Nil_conv)
  moreover have "dropWhile is_space s \<noteq> [] \<Longrightarrow> \<not> is_space (hd (dropWhile is_space s))"
    by (rule hd_dropWhile)
  ultimately have "dropWhile is_space s = []"
    by (cases "dropWhile is_space s") auto
  then show "\<forall>u \<in> set s. is_space u"
    by (simp add: dropWhile_eq_Nil_conv)
next
  assume "\<forall>u \<in> set s. is_space u"
  then show "trim s = []" by (auto simp: trim_def dest: set_dropWhileD)
qed

text \<open>Trimming takes away the white space at the two ends and nothing else.\<close>

lemma trim_core:
  assumes "\<forall>u \<in> set lead. is_space u" and "\<forall>u \<in> set trail. is_space u"
    and "core = [] \<or> (\<not> is_space (hd core) \<and> \<not> is_space (last core))"
  shows "trim (lead @ core @ trail) = core"
proof (cases "core = []")
  case True
  with assms(1,2) show ?thesis by (auto simp: trim_empty_iff)
next
  case False
  with assms(3) have "trim (lead @ core @ trail)
      = dropWhile is_space lead @ core @ rev (dropWhile is_space (rev trail))"
    by (intro trim_middle) auto
  moreover from assms(1) have "dropWhile is_space lead = []" by simp
  moreover from assms(2) have "dropWhile is_space (rev trail) = []" by simp
  ultimately show ?thesis by simp
qed

lemma trim_absolute:
  assumes "isAbsolute p"
  shows "trim p \<noteq> [] \<and> isAbsolute (trim p)"
proof -
  from assms obtain r where p: "p = js ''/'' @ r"
    by (cases p) (auto simp: isAbsolute_def)
  have "trim ([] @ js ''/'' @ r) = dropWhile is_space [] @ js ''/'' @ rev (dropWhile is_space (rev r))"
    by (rule trim_middle) (auto simp: is_space_def)
  with p show ?thesis by (simp add: isAbsolute_def)
qed

lemma dotdot_segment_kept:
  assumes "js ''..'' \<in> set (split_on (cu CHR ''/'') p)"
  shows "js ''..'' \<in> set (split_on (cu CHR ''/'') (trim (replaceBackslashes p)))"
proof -
  let ?l = "dropWhile is_space" and ?r = "\<lambda>b. rev (dropWhile is_space (rev b))"
  let ?s = replaceBackslashes
  from in_split_decomp[OF assms]
  consider "p = js ''..''" | b where "p = js ''..'' @ cu CHR ''/'' # b" | a where "p = a @ cu CHR ''/'' # js ''..''"
    | a b where "p = a @ cu CHR ''/'' # js ''..'' @ cu CHR ''/'' # b" by blast
  then show ?thesis
  proof cases
    case 1
    have "trim ([] @ js ''..'' @ []) = ?l [] @ js ''..'' @ ?r []"
      by (rule trim_middle) (auto simp: is_space_def)
    with 1 show ?thesis by (simp add: replaceBackslashes_def)
  next
    case 2
    have "trim ([] @ js ''../'' @ ?s b) = ?l [] @ js ''../'' @ ?r (?s b)"
      by (rule trim_middle) (auto simp: is_space_def)
    with 2 have "trim (?s p) = js ''..'' @ cu CHR ''/'' # ?r (?s b)"
      by (simp add: replaceBackslashes_def)
    then show ?thesis using in_split_first[of "cu CHR ''/''" "js ''..''"] by simp
  next
    case 3
    have "trim (?s a @ js ''/..'' @ []) = ?l (?s a) @ js ''/..'' @ ?r []"
      by (rule trim_middle) (auto simp: is_space_def)
    with 3 have "trim (?s p) = ?l (?s a) @ cu CHR ''/'' # js ''..''"
      by (simp add: replaceBackslashes_def)
    then show ?thesis using in_split_last[of "cu CHR ''/''" "js ''..''"] by simp
  next
    case 4
    have "trim (?s a @ js ''/../'' @ ?s b) = ?l (?s a) @ js ''/../'' @ ?r (?s b)"
      by (rule trim_middle) (auto simp: is_space_def)
    with 4 have "trim (?s p) = ?l (?s a) @ cu CHR ''/'' # js ''..'' @ cu CHR ''/'' # ?r (?s b)"
      by (simp add: replaceBackslashes_def)
    then show ?thesis using in_split_middle[of "cu CHR ''/''" "js ''..''"] by simp
  qed
qed

text \<open>
  A pattern that is an absolute path, or that has \<open>..\<close> as one of its segments between
  slashes, is unsafe for \<open>hasUnsafeGlobSegments\<close>.
\<close>

lemma unsafe_glob_sufficient:
  assumes "isAbsolute p \<or> js ''..'' \<in> set (split_on (cu CHR ''/'') p)"
  shows "hasUnsafeGlobSegments p"
proof -
  from assms show ?thesis
  proof
    assume "isAbsolute p"
    then have "isAbsolute (replaceBackslashes p)"
      by (cases p) (auto simp: isAbsolute_def replaceBackslashes_def)
    from trim_absolute[OF this] show ?thesis
      by (simp add: hasUnsafeGlobSegments_def)
  next
    assume "js ''..'' \<in> set (split_on (cu CHR ''/'') p)"
    from dotdot_segment_kept[OF this]
    have in_n: "js ''..'' \<in> set (split_on (cu CHR ''/'') (trim (replaceBackslashes p)))" .
    then have "trim (replaceBackslashes p) \<noteq> []" by auto
    with in_n show ?thesis
      by (auto simp: hasUnsafeGlobSegments_def list_ex_iff)
  qed
qed

lemma dropCommon_prefix:
  "dropCommon xs ys = (fr, tr) \<Longrightarrow> (fr = [] \<longleftrightarrow> prefix xs ys) \<and> (fr = [] \<longrightarrow> tr = drop (length xs) ys)"
  by (induction xs ys rule: dropCommon.induct) (auto split: if_splits)

lemma join_dotdot_first: "startsWith (join (js ''/'') (js ''..'' # rest)) (js ''..'')"
  by (cases rest) (auto simp: startsWith_def)

lemma join_first_segment:
  assumes "s \<noteq> []" "cu CHR ''/'' \<notin> set s"
  shows "join (js ''/'') (s # ss) \<noteq> [] \<and> \<not> isAbsolute (join (js ''/'') (s # ss))
    \<and> (startsWith (join (js ''/'') (s # ss)) (js ''..'') \<longleftrightarrow> startsWith s (js ''..''))"
proof -
  obtain r where j: "join (js ''/'') (s # ss) = s @ r" "r = [] \<or> hd r = cu CHR ''/''"
    by (cases ss) auto
  from assms obtain c cs where s: "s = c # cs" "c \<noteq> cu CHR ''/''" by (cases s) auto
  show ?thesis
  proof (cases cs)
    case Nil
    with j s show ?thesis
      by (cases r) (auto simp: isAbsolute_def startsWith_def)
  next
    case (Cons d ds)
    with j s show ?thesis
      by (auto simp: isAbsolute_def startsWith_def)
  qed
qed

lemma segments_member: "s \<in> set (segments p) \<Longrightarrow> s \<noteq> [] \<and> cu CHR ''/'' \<notin> set s"
  by (auto simp: segments_def dest: split_on_no_sep_in)

text \<open>
  What \<open>isWithinPath\<close> decides, in terms of segments: the root's segments are a prefix of
  the target's, and the first segment below the root is not a name that begins with two
  dots (the test \<open>relative.startsWith("..")\<close> reads such a name as a step to the parent).
\<close>

lemma isWithinPath_iff:
  "isWithinPath pcwd targetPath rootPath \<longleftrightarrow>
     containedIn pcwd targetPath rootPath \<and> \<not> dotDotName (belowRoot pcwd targetPath rootPath)"
proof -
  let ?xs = "segments (path_resolve pcwd [rootPath])"
  let ?ys = "segments (path_resolve pcwd [targetPath])"
  obtain fr tr where dc: "dropCommon ?xs ?ys = (fr, tr)" by (cases "dropCommon ?xs ?ys")
  note pre = dropCommon_prefix[OF dc]
  show ?thesis
  proof (cases "rootPath = targetPath \<or> path_resolve pcwd [rootPath] = path_resolve pcwd [targetPath]")
    case True
    then have "?xs = ?ys" by auto
    with True show ?thesis
      by (auto simp: isWithinPath_def path_relative_def containedIn_def belowRoot_def dotDotName_def Let_def)
  next
    case False
    then have rel: "path_relative pcwd rootPath targetPath = join (js ''/'') (replicate (length fr) (js ''..'') @ tr)"
      using dc by (simp add: path_relative_def Let_def)
    show ?thesis
    proof (cases fr)
      case (Cons f fs)
      then have "startsWith (path_relative pcwd rootPath targetPath) (js ''..'')"
        using rel join_dotdot_first by simp
      moreover from this have "path_relative pcwd rootPath targetPath \<noteq> []"
        by (auto simp: startsWith_def)
      moreover have "\<not> prefix ?xs ?ys" using pre Cons by simp
      ultimately show ?thesis by (simp add: isWithinPath_def containedIn_def Let_def)
    next
      case Nil
      with pre have p: "prefix ?xs ?ys" and tr: "tr = drop (length ?xs) ?ys" by simp_all
      show ?thesis
      proof (cases tr)
        case Nil
        with \<open>fr = []\<close> rel tr p show ?thesis
          by (simp add: isWithinPath_def containedIn_def belowRoot_def dotDotName_def Let_def)
      next
        case (Cons s ss)
        then have "s \<in> set ?ys" using tr by (metis in_set_dropD list.set_intros(1))
        then have "s \<noteq> []" "cu CHR ''/'' \<notin> set s" using segments_member by blast+
        from join_first_segment[OF this, of ss] Cons \<open>fr = []\<close> rel tr p show ?thesis
          by (simp add: isWithinPath_def containedIn_def belowRoot_def dotDotName_def Let_def)
      qed
    qed
  qed
qed

section \<open>Properties of the policy checker\<close>

lemma violationText_nonempty: "violationText v \<noteq> []"
  by (cases v) (simp_all add: violationText_def)

text \<open>
  Claim C1, as amended. For a call of \<open>read\<close>, \<open>grep\<close>, \<open>find\<close> or \<open>ls\<close> within both budgets,
  with a scope that is not empty and no unsafe find pattern or grep glob, let the resolved
  path be the path argument (the string \<open>path\<close>, else the string \<open>file_path\<close>, else \<open>.\<close>),
  with the white space at its two ends removed (all that \<open>trim\<close> removes, the no-break
  space and the byte order mark among it) and then one leading \<open>@\<close> removed, resolved
  against \<open>scope.cwd\<close>. Then:
  if the call returns no violation, the resolved path lies within an allowed root (the
  root's segments are a prefix of its segments; a path equal to a root is inside it) or
  equals an allowed file; if the resolved path equals an allowed file, or lies within an
  allowed root and its first segment below that root does not begin with two dots, the call
  returns no violation; and a violation, when there is one, is the out-of-scope violation
  that names the tool, the path argument as it was given, and the allowed roots and files.
  The last part spells the resolved path out: whenever the path argument is made of
  white space, a core that neither begins nor ends with white space, and white space
  again, the resolved path is the core without one leading \<open>@\<close>, resolved against
  \<open>scope.cwd\<close>.
\<close>

theorem path_scope_decision:
  assumes "tool \<in> set [js ''read'', js ''grep'', js ''find'', js ''ls'']"
    and "turn < maxT - 1" and "calls < maxC"
    and "allowedRoots sc \<noteq> [] \<or> allowedFiles sc \<noteq> []"
    and "\<not> (tool = js ''find'' \<and> (\<exists>p. pattern inp = Some p \<and> hasUnsafeGlobSegments p))"
    and "\<not> (tool = js ''grep'' \<and> (\<exists>g. glob inp = Some g \<and> hasUnsafeGlobSegments g))"
  shows
    "(getToolCallPolicyViolation pcwd tool inp turn calls maxT maxC sc = None \<longrightarrow>
        (\<exists>root \<in> set (allowedRoots sc). containedIn pcwd (resolvedToolPath pcwd sc (rawPathOf inp)) root)
        \<or> resolvedToolPath pcwd sc (rawPathOf inp) \<in> set (allowedFiles sc))
   \<and> (resolvedToolPath pcwd sc (rawPathOf inp) \<in> set (allowedFiles sc) \<longrightarrow>
        getToolCallPolicyViolation pcwd tool inp turn calls maxT maxC sc = None)
   \<and> (\<forall>root \<in> set (allowedRoots sc).
        containedIn pcwd (resolvedToolPath pcwd sc (rawPathOf inp)) root
        \<and> \<not> dotDotName (belowRoot pcwd (resolvedToolPath pcwd sc (rawPathOf inp)) root) \<longrightarrow>
        getToolCallPolicyViolation pcwd tool inp turn calls maxT maxC sc = None)
   \<and> (getToolCallPolicyViolation pcwd tool inp turn calls maxT maxC sc \<noteq> None \<longrightarrow>
        getToolCallPolicyViolation pcwd tool inp turn calls maxT maxC sc
          = Some (OutOfScopePath tool (rawPathOf inp) (allowedRoots sc) (allowedFiles sc)))
   \<and> (let white = (\<lambda>u :: codeunit.
                       u \<in> {0x09, 0x0A, 0x0B, 0x0C, 0x0D, 0x20, 0xA0, 0x1680, 0x2028, 0x2029, 0x202F,
                                0x205F, 0x3000, 0xFEFF}
                       \<or> (0x2000 \<le> u \<and> u \<le> 0x200A))
       in \<forall>lead core trail.
            rawPathOf inp = lead @ core @ trail
            \<and> (\<forall>u \<in> set lead. white u) \<and> (\<forall>u \<in> set trail. white u)
            \<and> (core = [] \<or> (\<not> white (hd core) \<and> \<not> white (last core))) \<longrightarrow>
            resolvedToolPath pcwd sc (rawPathOf inp)
              = path_resolve pcwd [cwd sc, if startsWith core (js ''@'') then tl core else core])"
proof -
  let ?r = "resolvedToolPath pcwd sc (rawPathOf inp)"
  let ?white = "\<lambda>u :: codeunit.
      u \<in> {0x09, 0x0A, 0x0B, 0x0C, 0x0D, 0x20, 0xA0, 0x1680, 0x2028, 0x2029, 0x202F,
               0x205F, 0x3000, 0xFEFF}
      \<or> (0x2000 \<le> u \<and> u \<le> 0x200A)"
  have white: "?white = is_space"
    by (rule ext) (simp add: is_space_def)
  have trimmed: "resolvedToolPath pcwd sc (rawPathOf inp)
      = path_resolve pcwd [cwd sc, if startsWith core (js ''@'') then tl core else core]"
    if "rawPathOf inp = lead @ core @ trail"
      and "\<forall>u \<in> set lead. is_space u" and "\<forall>u \<in> set trail. is_space u"
      and "core = [] \<or> (\<not> is_space (hd core) \<and> \<not> is_space (last core))"
    for lead core trail
  proof -
    from that have "trim (rawPathOf inp) = core" by (simp add: trim_core)
    then show ?thesis
      by (cases core) (simp_all add: resolvedToolPath_def normalizeToolPath_def startsWith_def)
  qed
  have parts: "let white = ?white
       in \<forall>lead core trail.
            rawPathOf inp = lead @ core @ trail
            \<and> (\<forall>u \<in> set lead. white u) \<and> (\<forall>u \<in> set trail. white u)
            \<and> (core = [] \<or> (\<not> white (hd core) \<and> \<not> white (last core))) \<longrightarrow>
            resolvedToolPath pcwd sc (rawPathOf inp)
              = path_resolve pcwd [cwd sc, if startsWith core (js ''@'') then tl core else core]"
    unfolding Let_def white using trimmed by blast
  have f: "(if tool = js ''find'' then unsafeStringArg (pattern inp) else None) = None"
    using assms(5) by (auto simp: unsafeStringArg_def split: option.splits)
  have g: "(if tool = js ''grep'' then unsafeStringArg (glob inp) else None) = None"
    using assms(6) by (auto simp: unsafeStringArg_def split: option.splits)
  have res: "getToolCallPolicyViolation pcwd tool inp turn calls maxT maxC sc =
      (if list_ex (\<lambda>root. isWithinPath pcwd ?r root) (allowedRoots sc) \<or> list_ex (\<lambda>file. ?r = file) (allowedFiles sc)
       then None else Some (OutOfScopePath tool (rawPathOf inp) (allowedRoots sc) (allowedFiles sc)))"
    using assms(1-4) f g by (simp add: getToolCallPolicyViolation_def Let_def)
  have decision: "(getToolCallPolicyViolation pcwd tool inp turn calls maxT maxC sc = None \<longrightarrow>
        (\<exists>root \<in> set (allowedRoots sc). containedIn pcwd ?r root) \<or> ?r \<in> set (allowedFiles sc))
   \<and> (?r \<in> set (allowedFiles sc) \<longrightarrow>
        getToolCallPolicyViolation pcwd tool inp turn calls maxT maxC sc = None)
   \<and> (\<forall>root \<in> set (allowedRoots sc).
        containedIn pcwd ?r root \<and> \<not> dotDotName (belowRoot pcwd ?r root) \<longrightarrow>
        getToolCallPolicyViolation pcwd tool inp turn calls maxT maxC sc = None)
   \<and> (getToolCallPolicyViolation pcwd tool inp turn calls maxT maxC sc \<noteq> None \<longrightarrow>
        getToolCallPolicyViolation pcwd tool inp turn calls maxT maxC sc
          = Some (OutOfScopePath tool (rawPathOf inp) (allowedRoots sc) (allowedFiles sc)))"
    unfolding res by (auto simp: list_ex_iff isWithinPath_iff)
  from decision parts show ?thesis by (intro conjI) (elim conjE, assumption)+
qed

theorem path_scope_decision_witness:
  "getToolCallPolicyViolation (js ''/work'') (js ''read'')
      \<lparr>path = Some (js ''/work/README.md''), file_path = None, pattern = None, glob = None\<rparr> 0 0 6 24
      \<lparr>cwd = js ''/work'', allowedRoots = [js ''/work''], allowedFiles = []\<rparr>
     = None
   \<and> getToolCallPolicyViolation (js ''/work'') (js ''read'')
      \<lparr>path = Some (js ''/etc/passwd''), file_path = None, pattern = None, glob = None\<rparr> 0 0 6 24
      \<lparr>cwd = js ''/work'', allowedRoots = [js ''/work''], allowedFiles = []\<rparr>
     = Some (OutOfScopePath (js ''read'') (js ''/etc/passwd'') [js ''/work''] [])
   \<and> getToolCallPolicyViolation (js ''/work'') (js ''read'')
      \<lparr>path = Some ([0xA0, 0x2028] @ js ''/etc/passwd'' @ [0xFEFF, 0x0A]), file_path = None,
        pattern = None, glob = None\<rparr> 0 0 6 24
      \<lparr>cwd = js ''/work'', allowedRoots = [js ''/work''], allowedFiles = []\<rparr>
     = Some (OutOfScopePath (js ''read'') ([0xA0, 0x2028] @ js ''/etc/passwd'' @ [0xFEFF, 0x0A])
               [js ''/work''] [])
   \<and> resolvedToolPath (js ''/work'')
        \<lparr>cwd = js ''/work'', allowedRoots = [js ''/work''], allowedFiles = []\<rparr>
        ([0xA0, 0x2028] @ js ''/etc/passwd'' @ [0xFEFF, 0x0A])
     = js ''/etc/passwd''"
proof -
  let ?sc = "\<lparr>cwd = js ''/work'', allowedRoots = [js ''/work''], allowedFiles = []\<rparr>"
  let ?in = "\<lparr>path = Some (js ''/work/README.md''), file_path = None, pattern = None, glob = None\<rparr>"
  let ?out = "\<lparr>path = Some (js ''/etc/passwd''), file_path = None, pattern = None, glob = None\<rparr>"
  let ?padded = "[0xA0, 0x2028] @ js ''/etc/passwd'' @ [0xFEFF, 0x0A] :: jsstring"
  let ?pad = "\<lparr>path = Some ?padded, file_path = None, pattern = None, glob = None\<rparr>"
  have inside: "containedIn (js ''/work'') (resolvedToolPath (js ''/work'') ?sc (rawPathOf ?in)) (js ''/work'')
      \<and> \<not> dotDotName (belowRoot (js ''/work'') (resolvedToolPath (js ''/work'') ?sc (rawPathOf ?in)) (js ''/work''))"
    by code_simp
  have outside: "\<not> containedIn (js ''/work'') (resolvedToolPath (js ''/work'') ?sc (rawPathOf ?out)) (js ''/work'')"
    by code_simp
  note padded = path_scope_decision [of "js ''read''" 0 6 0 24 ?sc ?pad "js ''/work''"]
  have "\<forall>lead core trail.
      rawPathOf ?pad = lead @ core @ trail
      \<and> (\<forall>u \<in> set lead. is_space u) \<and> (\<forall>u \<in> set trail. is_space u)
      \<and> (core = [] \<or> (\<not> is_space (hd core) \<and> \<not> is_space (last core))) \<longrightarrow>
      resolvedToolPath (js ''/work'') ?sc (rawPathOf ?pad)
        = path_resolve (js ''/work'') [cwd ?sc, if startsWith core (js ''@'') then tl core else core]"
    using padded by (simp add: Let_def is_space_def)
  then have "rawPathOf ?pad = [0xA0, 0x2028] @ js ''/etc/passwd'' @ [0xFEFF, 0x0A]
      \<and> (\<forall>u \<in> set [0xA0, 0x2028 :: codeunit]. is_space u)
      \<and> (\<forall>u \<in> set [0xFEFF, 0x0A :: codeunit]. is_space u)
      \<and> (js ''/etc/passwd'' = [] \<or> (\<not> is_space (hd (js ''/etc/passwd''))
            \<and> \<not> is_space (last (js ''/etc/passwd'')))) \<longrightarrow>
      resolvedToolPath (js ''/work'') ?sc (rawPathOf ?pad)
        = path_resolve (js ''/work'')
            [cwd ?sc, if startsWith (js ''/etc/passwd'') (js ''@'') then tl (js ''/etc/passwd'')
                      else js ''/etc/passwd'']"
    by blast
  then have "resolvedToolPath (js ''/work'') ?sc (rawPathOf ?pad)
      = path_resolve (js ''/work'') [js ''/work'', js ''/etc/passwd'']"
    by (simp add: rawPathOf_def is_space_def startsWith_def)
  moreover have "path_resolve (js ''/work'') [js ''/work'', js ''/etc/passwd''] = js ''/etc/passwd''"
    by code_simp
  ultimately have trimmed: "resolvedToolPath (js ''/work'') ?sc ?padded = js ''/etc/passwd''"
    by (simp add: rawPathOf_def)
  have outside_padded:
    "\<not> containedIn (js ''/work'') (resolvedToolPath (js ''/work'') ?sc (rawPathOf ?pad)) (js ''/work'')"
    by code_simp
  from path_scope_decision [of "js ''read''" 0 6 0 24 ?sc ?in "js ''/work''"] inside
  have 1: "getToolCallPolicyViolation (js ''/work'') (js ''read'') ?in 0 0 6 24 ?sc = None"
    by simp
  from path_scope_decision [of "js ''read''" 0 6 0 24 ?sc ?out "js ''/work''"] outside
  have 2: "getToolCallPolicyViolation (js ''/work'') (js ''read'') ?out 0 0 6 24 ?sc
      = Some (OutOfScopePath (js ''read'') (js ''/etc/passwd'') [js ''/work''] [])"
    by (simp add: rawPathOf_def)
  from path_scope_decision [of "js ''read''" 0 6 0 24 ?sc ?pad "js ''/work''"] outside_padded
  have 3: "getToolCallPolicyViolation (js ''/work'') (js ''read'') ?pad 0 0 6 24 ?sc
      = Some (OutOfScopePath (js ''read'') ?padded [js ''/work''] [])"
    by (simp add: rawPathOf_def)
  from 1 2 3 trimmed show ?thesis by simp
qed

text \<open>
  The claim as it was stated fails at two inputs, both with the working directory \<open>/work\<close>
  as the only allowed root. The path \<open>..cache/notes.md\<close> resolves to
  \<open>/work/..cache/notes.md\<close>, inside the root, and is reported out of scope: its relative
  path begins with two dots. The path \<open>@/etc/passwd\<close>, resolved as it is given, is
  \<open>/work/@/etc/passwd\<close>, inside the root; the checker removes the \<open>@\<close> first, resolves
  \<open>/etc/passwd\<close> and reports it out of scope.
\<close>

theorem path_scope_counterexample:
  "containedIn (js ''/work'') (path_resolve (js ''/work'') [js ''/work'', js ''..cache/notes.md'']) (js ''/work'')
   \<and> getToolCallPolicyViolation (js ''/work'') (js ''read'')
        \<lparr>path = Some (js ''..cache/notes.md''), file_path = None, pattern = None, glob = None\<rparr> 0 0 6 24
        \<lparr>cwd = js ''/work'', allowedRoots = [js ''/work''], allowedFiles = []\<rparr>
      = Some (OutOfScopePath (js ''read'') (js ''..cache/notes.md'') [js ''/work''] [])
   \<and> containedIn (js ''/work'') (path_resolve (js ''/work'') [js ''/work'', js ''@/etc/passwd'']) (js ''/work'')
   \<and> getToolCallPolicyViolation (js ''/work'') (js ''read'')
        \<lparr>path = Some (js ''@/etc/passwd''), file_path = None, pattern = None, glob = None\<rparr> 0 0 6 24
        \<lparr>cwd = js ''/work'', allowedRoots = [js ''/work''], allowedFiles = []\<rparr>
      = Some (OutOfScopePath (js ''read'') (js ''@/etc/passwd'') [js ''/work''] [])"
  by code_simp

text \<open>
  Claim C3, as amended. The budgets are counted in integers. For every call with
  \<open>toolCalls = maxToolCalls\<close>: when \<open>turnIndex < maxTurns - 1\<close> the checker reports the
  tool-call-budget violation, whatever the tool name, the input and the scope are; when
  \<open>turnIndex \<ge> maxTurns - 1\<close> the turn budget is tested first and the checker reports the
  turn-budget violation instead.
\<close>

theorem tool_call_budget_after_turn_budget:
  "calls = maxC \<Longrightarrow>
     (turn < maxT - 1 \<longrightarrow>
        getToolCallPolicyViolation pcwd tool inp turn calls maxT maxC sc
          = Some (ToolCallBudgetExceeded calls maxC)) \<and>
     (maxT - 1 \<le> turn \<longrightarrow>
        getToolCallPolicyViolation pcwd tool inp turn calls maxT maxC sc
          = Some (TurnBudgetExceeded (min (turn + 1) maxT) maxT))"
  by (simp add: getToolCallPolicyViolation_def)

theorem tool_call_budget_after_turn_budget_witness:
  "getToolCallPolicyViolation (js ''/work'') (js ''read'')
      \<lparr>path = Some (js ''README.md''), file_path = None, pattern = None, glob = None\<rparr> 0 24 6 24
      \<lparr>cwd = js ''/work'', allowedRoots = [js ''/work''], allowedFiles = []\<rparr>
     = Some (ToolCallBudgetExceeded 24 24)
   \<and> violationText (ToolCallBudgetExceeded 24 24)
     = js ''Replicant subagent tool call budget exceeded (24/24). Narrow the task for focused exploration.''
   \<and> getToolCallPolicyViolation (js ''/work'') (js ''bash'')
      \<lparr>path = None, file_path = None, pattern = None, glob = None\<rparr> 7 24 6 24
      \<lparr>cwd = js ''/work'', allowedRoots = [], allowedFiles = []\<rparr>
     = Some (TurnBudgetExceeded 6 6)"
  using tool_call_budget_after_turn_budget [of 24 24 0 6 "js ''/work''" "js ''read''"
      "\<lparr>path = Some (js ''README.md''), file_path = None, pattern = None, glob = None\<rparr>"
      "\<lparr>cwd = js ''/work'', allowedRoots = [js ''/work''], allowedFiles = []\<rparr>"]
    tool_call_budget_after_turn_budget [of 24 24 7 6 "js ''/work''" "js ''bash''"
      "\<lparr>path = None, file_path = None, pattern = None, glob = None\<rparr>"
      "\<lparr>cwd = js ''/work'', allowedRoots = [], allowedFiles = []\<rparr>"]
  by (simp add: violationText_def showInt_def showNat.simps digitChar_def)

text \<open>
  The claim as it was stated fails where both budgets are exhausted: with
  \<open>toolCalls = maxToolCalls = 24\<close> on the last turn (\<open>turnIndex = 5\<close>, \<open>maxTurns = 6\<close>) the
  checker reports the turn budget, not the tool-call budget.
\<close>

theorem tool_call_budget_counterexample:
  "getToolCallPolicyViolation (js ''/work'') (js ''read'')
      \<lparr>path = Some (js ''README.md''), file_path = None, pattern = None, glob = None\<rparr> 5 24 6 24
      \<lparr>cwd = js ''/work'', allowedRoots = [js ''/work''], allowedFiles = []\<rparr>
     = Some (TurnBudgetExceeded 6 6)
   \<and> violationText (TurnBudgetExceeded 6 6)
     = js ''Replicant subagent turn budget exceeded (6/6) before producing a final answer.''"
  by (simp add: getToolCallPolicyViolation_def violationText_def showInt_def showNat.simps
      digitChar_def)

text \<open>
  Claim C2, as amended. Take a call of \<open>find\<close> whose \<open>pattern\<close>, or of \<open>grep\<close> whose \<open>glob\<close>,
  is a string that is an absolute path or has a \<open>..\<close> segment. When the scope is not empty
  (it has an allowed root or an allowed file) the call is always reported as a violation,
  wherever its \<open>path\<close> argument points; within both budgets the violation is the one of the
  pattern. When the scope is empty the pattern is not looked at: within both budgets no
  violation is reported.
\<close>

theorem unsafe_pattern_is_violation:
  assumes "(tool = js ''find'' \<and> pattern inp = Some p) \<or> (tool = js ''grep'' \<and> glob inp = Some p)"
    and "isAbsolute p \<or> js ''..'' \<in> set (split_on (cu CHR ''/'') p)"
  shows
   "(allowedRoots sc \<noteq> [] \<or> allowedFiles sc \<noteq> [] \<longrightarrow>
       getToolCallPolicyViolation pcwd tool inp turn calls maxT maxC sc \<noteq> None
     \<and> (turn < maxT - 1 \<and> calls < maxC \<longrightarrow>
          getToolCallPolicyViolation pcwd tool inp turn calls maxT maxC sc
            = Some (if tool = js ''find'' then UnsafeFindPattern p else UnsafeGrepGlob p)))
  \<and> (allowedRoots sc = [] \<and> allowedFiles sc = [] \<and> turn < maxT - 1 \<and> calls < maxC \<longrightarrow>
       getToolCallPolicyViolation pcwd tool inp turn calls maxT maxC sc = None)"
proof -
  have unsafe: "hasUnsafeGlobSegments p"
    using assms(2) by (rule unsafe_glob_sufficient)
  from assms(1) show ?thesis
  proof
    assume "tool = js ''find'' \<and> pattern inp = Some p"
    with unsafe show ?thesis
      by (simp add: getToolCallPolicyViolation_def unsafeStringArg_def)
  next
    assume "tool = js ''grep'' \<and> glob inp = Some p"
    with unsafe show ?thesis
      by (simp add: getToolCallPolicyViolation_def unsafeStringArg_def)
  qed
qed

theorem unsafe_pattern_is_violation_witness:
  "getToolCallPolicyViolation (js ''/work'') (js ''find'')
      \<lparr>path = Some (js ''.''), file_path = None, pattern = Some (js ''../**/*.ts''), glob = None\<rparr> 0 0 6 24
      \<lparr>cwd = js ''/work'', allowedRoots = [js ''/work''], allowedFiles = []\<rparr>
     = Some (UnsafeFindPattern (js ''../**/*.ts''))
   \<and> getToolCallPolicyViolation (js ''/work'') (js ''grep'')
      \<lparr>path = Some (js ''src''), file_path = None, pattern = Some (js ''x''), glob = Some (js ''/etc/*'')\<rparr> 0 0 6 24
      \<lparr>cwd = js ''/work'', allowedRoots = [js ''/work''], allowedFiles = []\<rparr>
     = Some (UnsafeGrepGlob (js ''/etc/*''))
   \<and> getToolCallPolicyViolation (js ''/work'') (js ''grep'')
      \<lparr>path = Some (js ''src''), file_path = None, pattern = Some (js ''x''), glob = Some (js ''/etc/*'')\<rparr> 0 0 6 24
      \<lparr>cwd = js ''/work'', allowedRoots = [], allowedFiles = []\<rparr>
     = None"
  using unsafe_pattern_is_violation [where tool = "js ''find''" and p = "js ''../**/*.ts''"
      and inp = "\<lparr>path = Some (js ''.''), file_path = None, pattern = Some (js ''../**/*.ts''), glob = None\<rparr>"
      and sc = "\<lparr>cwd = js ''/work'', allowedRoots = [js ''/work''], allowedFiles = []\<rparr>"
      and pcwd = "js ''/work''" and turn = 0 and calls = 0 and maxT = 6 and maxC = 24]
    unsafe_pattern_is_violation [where tool = "js ''grep''" and p = "js ''/etc/*''"
      and inp = "\<lparr>path = Some (js ''src''), file_path = None, pattern = Some (js ''x''), glob = Some (js ''/etc/*'')\<rparr>"
      and sc = "\<lparr>cwd = js ''/work'', allowedRoots = [js ''/work''], allowedFiles = []\<rparr>"
      and pcwd = "js ''/work''" and turn = 0 and calls = 0 and maxT = 6 and maxC = 24]
    unsafe_pattern_is_violation [where tool = "js ''grep''" and p = "js ''/etc/*''"
      and inp = "\<lparr>path = Some (js ''src''), file_path = None, pattern = Some (js ''x''), glob = Some (js ''/etc/*'')\<rparr>"
      and sc = "\<lparr>cwd = js ''/work'', allowedRoots = [], allowedFiles = []\<rparr>"
      and pcwd = "js ''/work''" and turn = 0 and calls = 0 and maxT = 6 and maxC = 24]
  by (simp add: isAbsolute_def)

text \<open>
  The claim as it was stated (``for every scope'') fails for the empty scope: the checker
  returns before it looks at the pattern.
\<close>

theorem unsafe_pattern_counterexample:
  "getToolCallPolicyViolation (js ''/work'') (js ''find'')
      \<lparr>path = Some (js ''.''), file_path = None, pattern = Some (js ''../**/*.ts''), glob = None\<rparr> 0 0 6 24
      \<lparr>cwd = js ''/work'', allowedRoots = [], allowedFiles = []\<rparr>
     = None
   \<and> js ''..'' \<in> set (split_on (cu CHR ''/'') (js ''../**/*.ts''))"
  by (simp add: getToolCallPolicyViolation_def)

section \<open>Properties of the policy hook\<close>

text \<open>
  Claim C5, as amended. When the checker reports a violation, the hook blocks the call
  with the violation's message as the reason and leaves the counters alone. On the final
  allowed turn (\<open>turnIndex \<ge> maxTurns - 1\<close>, where the violation is always the turn-budget
  one) it does not request an abort and \<open>turnBudgetBlocked\<close> becomes the message unless a
  block is recorded already, in which case the earlier one is kept. Before the final turn
  it requests an abort and \<open>violation\<close> becomes the message unless a violation is recorded
  already, in which case the earlier one is kept.
\<close>

theorem hook_soft_and_hard_stop:
  assumes "getToolCallPolicyViolation pcwd tool inp (turnIndex st) (ReplicantPolicyState.toolCalls st) maxT maxC sc = Some v"
  shows "verdict (onToolCall pcwd sc maxT maxC tool inp st) = Blocked (violationText v)
    \<and> abortRequested (onToolCall pcwd sc maxT maxC tool inp st) = (turnIndex st < maxT - 1)
    \<and> ReplicantPolicyState.toolCalls (policyState (onToolCall pcwd sc maxT maxC tool inp st))
        = ReplicantPolicyState.toolCalls st
    \<and> turnIndex (policyState (onToolCall pcwd sc maxT maxC tool inp st)) = turnIndex st
    \<and> (maxT - 1 \<le> turnIndex st \<longrightarrow>
          v = TurnBudgetExceeded maxT maxT
        \<and> violation (policyState (onToolCall pcwd sc maxT maxC tool inp st)) = violation st
        \<and> turnBudgetBlocked (policyState (onToolCall pcwd sc maxT maxC tool inp st))
            = (case turnBudgetBlocked st of None \<Rightarrow> Some (violationText v) | Some earlier \<Rightarrow> Some earlier))
    \<and> (turnIndex st < maxT - 1 \<longrightarrow>
          turnBudgetBlocked (policyState (onToolCall pcwd sc maxT maxC tool inp st)) = turnBudgetBlocked st
        \<and> violation (policyState (onToolCall pcwd sc maxT maxC tool inp st))
            = (case violation st of None \<Rightarrow> Some (violationText v) | Some earlier \<Rightarrow> Some earlier))"
proof (cases "maxT - 1 \<le> turnIndex st")
  case True
  then have "min (turnIndex st + 1) maxT = maxT" by simp
  with True assms have "v = TurnBudgetExceeded maxT maxT"
    by (simp add: getToolCallPolicyViolation_def)
  with True assms show ?thesis
    by (auto simp add: onToolCall_def firstWins_def split: option.splits)
next
  case False
  with assms show ?thesis
    by (simp add: onToolCall_def firstWins_def)
qed

theorem hook_soft_and_hard_stop_witness:
  "verdict (onToolCall (js ''/work'') \<lparr>cwd = js ''/work'', allowedRoots = [js ''/work''], allowedFiles = []\<rparr> 6 24 (js ''read'')
       \<lparr>path = Some (js ''README.md''), file_path = None, pattern = None, glob = None\<rparr>
       \<lparr>turnIndex = 5, toolCalls = 3, violation = None, turnBudgetBlocked = None\<rparr>)
     = Blocked (violationText (TurnBudgetExceeded 6 6))
   \<and> \<not> abortRequested (onToolCall (js ''/work'') \<lparr>cwd = js ''/work'', allowedRoots = [js ''/work''], allowedFiles = []\<rparr> 6 24 (js ''read'')
       \<lparr>path = Some (js ''README.md''), file_path = None, pattern = None, glob = None\<rparr>
       \<lparr>turnIndex = 5, toolCalls = 3, violation = None, turnBudgetBlocked = None\<rparr>)
   \<and> policyState (onToolCall (js ''/work'') \<lparr>cwd = js ''/work'', allowedRoots = [js ''/work''], allowedFiles = []\<rparr> 6 24 (js ''read'')
       \<lparr>path = Some (js ''README.md''), file_path = None, pattern = None, glob = None\<rparr>
       \<lparr>turnIndex = 5, toolCalls = 3, violation = None, turnBudgetBlocked = None\<rparr>)
     = \<lparr>turnIndex = 5, toolCalls = 3, violation = None,
        turnBudgetBlocked = Some (violationText (TurnBudgetExceeded 6 6))\<rparr>
   \<and> verdict (onToolCall (js ''/work'') \<lparr>cwd = js ''/work'', allowedRoots = [js ''/work''], allowedFiles = []\<rparr> 6 24 (js ''read'')
       \<lparr>path = Some (js ''/etc/passwd''), file_path = None, pattern = None, glob = None\<rparr>
       \<lparr>turnIndex = 0, toolCalls = 0, violation = None, turnBudgetBlocked = None\<rparr>)
     = Blocked (violationText (OutOfScopePath (js ''read'') (js ''/etc/passwd'') [js ''/work''] []))
   \<and> abortRequested (onToolCall (js ''/work'') \<lparr>cwd = js ''/work'', allowedRoots = [js ''/work''], allowedFiles = []\<rparr> 6 24 (js ''read'')
       \<lparr>path = Some (js ''/etc/passwd''), file_path = None, pattern = None, glob = None\<rparr>
       \<lparr>turnIndex = 0, toolCalls = 0, violation = None, turnBudgetBlocked = None\<rparr>)
   \<and> policyState (onToolCall (js ''/work'') \<lparr>cwd = js ''/work'', allowedRoots = [js ''/work''], allowedFiles = []\<rparr> 6 24 (js ''read'')
       \<lparr>path = Some (js ''/etc/passwd''), file_path = None, pattern = None, glob = None\<rparr>
       \<lparr>turnIndex = 0, toolCalls = 0, violation = None, turnBudgetBlocked = None\<rparr>)
     = \<lparr>turnIndex = 0, toolCalls = 0,
        violation = Some (violationText (OutOfScopePath (js ''read'') (js ''/etc/passwd'') [js ''/work''] [])),
        turnBudgetBlocked = None\<rparr>"
proof -
  let ?sc = "\<lparr>cwd = js ''/work'', allowedRoots = [js ''/work''], allowedFiles = []\<rparr>"
  let ?a = "\<lparr>path = Some (js ''README.md''), file_path = None, pattern = None, glob = None\<rparr>"
  let ?b = "\<lparr>path = Some (js ''/etc/passwd''), file_path = None, pattern = None, glob = None\<rparr>"
  let ?last = "\<lparr>turnIndex = 5, toolCalls = 3, violation = None, turnBudgetBlocked = None\<rparr>"
  let ?first = "\<lparr>turnIndex = 0, toolCalls = 0, violation = None, turnBudgetBlocked = None\<rparr>"
  have a: "getToolCallPolicyViolation (js ''/work'') (js ''read'') ?a (turnIndex ?last)
      (ReplicantPolicyState.toolCalls ?last) 6 24 ?sc = Some (TurnBudgetExceeded 6 6)"
    by (simp add: getToolCallPolicyViolation_def)
  have b: "getToolCallPolicyViolation (js ''/work'') (js ''read'') ?b (turnIndex ?first)
      (ReplicantPolicyState.toolCalls ?first) 6 24 ?sc
      = Some (OutOfScopePath (js ''read'') (js ''/etc/passwd'') [js ''/work''] [])"
    by code_simp
  from hook_soft_and_hard_stop [OF a] hook_soft_and_hard_stop [OF b] show ?thesis
    by (simp add: ReplicantPolicyState.equality)
qed

text \<open>
  The claim as it was stated (``records the reason'') fails when a reason is recorded
  already. Two calls that the session runs one after the other in the first turn, both out
  of scope: the second call is blocked with its own reason, and \<open>violation\<close> still holds
  the reason of the first.
\<close>

theorem hook_counterexample:
  "verdict (onToolCall (js ''/work'') \<lparr>cwd = js ''/work'', allowedRoots = [js ''/work''], allowedFiles = []\<rparr> 6 24 (js ''read'')
       \<lparr>path = Some (js ''/etc/shadow''), file_path = None, pattern = None, glob = None\<rparr>
       (policyState (onToolCall (js ''/work'') \<lparr>cwd = js ''/work'', allowedRoots = [js ''/work''], allowedFiles = []\<rparr> 6 24 (js ''read'')
          \<lparr>path = Some (js ''/etc/passwd''), file_path = None, pattern = None, glob = None\<rparr>
          \<lparr>turnIndex = 0, toolCalls = 0, violation = None, turnBudgetBlocked = None\<rparr>)))
     = Blocked (violationText (OutOfScopePath (js ''read'') (js ''/etc/shadow'') [js ''/work''] []))
  \<and> violation (policyState (onToolCall (js ''/work'') \<lparr>cwd = js ''/work'', allowedRoots = [js ''/work''], allowedFiles = []\<rparr> 6 24 (js ''read'')
       \<lparr>path = Some (js ''/etc/shadow''), file_path = None, pattern = None, glob = None\<rparr>
       (policyState (onToolCall (js ''/work'') \<lparr>cwd = js ''/work'', allowedRoots = [js ''/work''], allowedFiles = []\<rparr> 6 24 (js ''read'')
          \<lparr>path = Some (js ''/etc/passwd''), file_path = None, pattern = None, glob = None\<rparr>
          \<lparr>turnIndex = 0, toolCalls = 0, violation = None, turnBudgetBlocked = None\<rparr>))))
     = Some (violationText (OutOfScopePath (js ''read'') (js ''/etc/passwd'') [js ''/work''] []))
  \<and> violationText (OutOfScopePath (js ''read'') (js ''/etc/passwd'') [js ''/work''] [])
     \<noteq> violationText (OutOfScopePath (js ''read'') (js ''/etc/shadow'') [js ''/work''] [])"
  by code_simp

section \<open>Properties of the supervisor\<close>

text \<open>The steps of a run never change the two budgets, and only the signal sets the abort flag.\<close>

lemma takeMessage_keeps:
  "maxTurns (details (takeMessage m st)) = maxTurns (details st)
   \<and> maxToolCalls (details (takeMessage m st)) = maxToolCalls (details st)
   \<and> abortedBySignal (takeMessage m st) = abortedBySignal st"
  by (simp add: takeMessage_def Let_def split: option.splits)

lemma runStep_keeps:
  "maxTurns (details (runStep st step)) = maxTurns (details st)
   \<and> maxToolCalls (details (runStep st step)) = maxToolCalls (details st)
   \<and> abortedBySignal (runStep st step) = (abortedBySignal st \<or> step = SignalAborts)"
proof (cases step)
  case (SessionEmits e)
  then show ?thesis by (cases e) (simp_all add: takeMessage_keeps Let_def)
qed simp_all

lemma foldl_runStep_keeps:
  "maxTurns (details (foldl runStep st xs)) = maxTurns (details st)
   \<and> maxToolCalls (details (foldl runStep st xs)) = maxToolCalls (details st)
   \<and> abortedBySignal (foldl runStep st xs) = (abortedBySignal st \<or> SignalAborts \<in> set xs)"
proof (induction xs arbitrary: st)
  case Nil
  show ?case by simp
next
  case (Cons x xs)
  show ?case using Cons.IH[of "runStep st x"] runStep_keeps[of st x] by auto
qed

lemma settledState_keeps:
  "maxTurns (details (settledState optT optC b)) = effectiveMaxTurns optT
   \<and> maxToolCalls (details (settledState optT optC b)) = effectiveMaxToolCalls optC
   \<and> abortedBySignal (settledState optT optC b) = (SignalAborts \<in> set (steps b))"
  using foldl_runStep_keeps[of "bootState optT optC" "steps b"]
  by (simp add: settledState_def Let_def takeMessage_keeps bootState_def initialDetails_def
      split: option.splits del: getLastAssistantMessage.simps)

lemma settle_keeps:
  "maxTurns (outcomeDetails (settle th pol pe st)) = maxTurns (details st)
   \<and> maxToolCalls (outcomeDetails (settle th pol pe st)) = maxToolCalls (details st)"
  by (simp add: settle_def Let_def split: option.splits prod.splits)

text \<open>
  Claim C10. A budget option that is left out, is not a finite number (\<open>NaN\<close> or an
  infinity) or is not strictly positive gives the default, 8 turns and 40 tool calls; a
  finite positive value is rounded down. The effective values are the ones in the details
  record of every outcome of the run, the ones handed to the session factory, and the
  ones the policy hook of the default session checks against.
\<close>

theorem effective_budgets:
  "(requested = None \<or> requested = Some NaN \<or> requested = Some PosInfinity
      \<or> requested = Some NegInfinity \<or> (\<exists>x. requested = Some (Finite x) \<and> x \<le> 0) \<longrightarrow>
      effectiveMaxTurns requested = 8 \<and> effectiveMaxToolCalls requested = 40)
   \<and> (\<forall>x. requested = Some (Finite x) \<and> 0 < x \<longrightarrow>
      effectiveMaxTurns requested = \<lfloor>x\<rfloor> \<and> effectiveMaxToolCalls requested = \<lfloor>x\<rfloor>)
   \<and> maxTurns (outcomeDetails (runReplicantSubprocess th optT optC b)) = effectiveMaxTurns optT
   \<and> maxToolCalls (outcomeDetails (runReplicantSubprocess th optT optC b)) = effectiveMaxToolCalls optC
   \<and> factoryMaxTurns (sessionFactoryInput optT optC) = effectiveMaxTurns optT
   \<and> factoryMaxToolCalls (sessionFactoryInput optT optC) = effectiveMaxToolCalls optC
   \<and> defaultSessionHook pcwd workDir scopeOpt (sessionFactoryInput optT optC)
       = onToolCall pcwd (resolveScope pcwd workDir scopeOpt) (effectiveMaxTurns optT) (effectiveMaxToolCalls optC)"
proof -
  have a: "requested = None \<or> requested = Some NaN \<or> requested = Some PosInfinity
      \<or> requested = Some NegInfinity \<or> (\<exists>x. requested = Some (Finite x) \<and> x \<le> 0) \<longrightarrow>
      effectiveMaxTurns requested = 8 \<and> effectiveMaxToolCalls requested = 40"
    by (auto simp: effectiveMaxTurns_def effectiveMaxToolCalls_def effectiveBudget_def
        DEFAULT_MAX_TURNS_def DEFAULT_MAX_TOOL_CALLS_def)
  have b: "\<forall>x. requested = Some (Finite x) \<and> 0 < x \<longrightarrow>
      effectiveMaxTurns requested = \<lfloor>x\<rfloor> \<and> effectiveMaxToolCalls requested = \<lfloor>x\<rfloor>"
    by (auto simp: effectiveMaxTurns_def effectiveMaxToolCalls_def effectiveBudget_def)
  have c: "maxTurns (outcomeDetails (runReplicantSubprocess th optT optC b)) = effectiveMaxTurns optT
   \<and> maxToolCalls (outcomeDetails (runReplicantSubprocess th optT optC b)) = effectiveMaxToolCalls optC"
    by (simp add: runReplicantSubprocess_def settle_keeps settledState_keeps bootState_def
        initialDetails_def split: option.splits)
  have d: "factoryMaxTurns (sessionFactoryInput optT optC) = effectiveMaxTurns optT
   \<and> factoryMaxToolCalls (sessionFactoryInput optT optC) = effectiveMaxToolCalls optC
   \<and> defaultSessionHook pcwd workDir scopeOpt (sessionFactoryInput optT optC)
       = onToolCall pcwd (resolveScope pcwd workDir scopeOpt) (effectiveMaxTurns optT) (effectiveMaxToolCalls optC)"
    by (simp add: sessionFactoryInput_def defaultSessionHook_def)
  from a b c d show ?thesis by blast
qed

theorem effective_budgets_witness:
  "effectiveMaxTurns (Some (Finite (5 / 2))) = 2
   \<and> effectiveMaxToolCalls (Some (Finite (5 / 2))) = 2
   \<and> effectiveMaxTurns (Some (Finite (- 3))) = 8
   \<and> effectiveMaxToolCalls (Some (Finite 0)) = 40
   \<and> effectiveMaxTurns (Some NaN) = 8
   \<and> effectiveMaxToolCalls (Some PosInfinity) = 40
   \<and> effectiveMaxTurns None = 8"
proof -
  have "\<forall>x. Some (Finite (5 / 2)) = Some (Finite x) \<and> 0 < x \<longrightarrow>
      effectiveMaxTurns (Some (Finite (5 / 2))) = \<lfloor>x\<rfloor>
      \<and> effectiveMaxToolCalls (Some (Finite (5 / 2))) = \<lfloor>x\<rfloor>"
    using effective_budgets [where requested = "Some (Finite (5 / 2))"] by blast
  then have "Some (Finite (5 / 2)) = Some (Finite (5 / 2)) \<and> (0 :: real) < 5 / 2 \<longrightarrow>
      effectiveMaxTurns (Some (Finite (5 / 2))) = \<lfloor>5 / 2 :: real\<rfloor>
      \<and> effectiveMaxToolCalls (Some (Finite (5 / 2))) = \<lfloor>5 / 2 :: real\<rfloor>"
    by (rule spec)
  then have positive: "effectiveMaxTurns (Some (Finite (5 / 2))) = 2
      \<and> effectiveMaxToolCalls (Some (Finite (5 / 2))) = 2"
    by simp
  from positive
    effective_budgets [where requested = "Some (Finite (- 3))"]
    effective_budgets [where requested = "Some (Finite 0)"]
    effective_budgets [where requested = "Some NaN"]
    effective_budgets [where requested = "Some PosInfinity"]
    effective_budgets [where requested = None]
  show ?thesis by simp
qed

text \<open>
  Claim C4. When the session was created, the outcome of the run is chosen in this
  order once the prompt call has settled. A recorded policy violation (a non-empty
  string, as every message of the checker is) makes the run throw it, with phase \<open>error\<close>.
  Else a cancellation signal that has fired makes the run throw the aborted error, with
  phase \<open>aborted\<close>. Else an error thrown by the prompt call is thrown again, with phase
  \<open>error\<close>. Else a final text that is empty or only white space (every code unit of it is
  one that \<open>trim\<close> removes: a white space or a line terminator of the language, the
  no-break space, the byte order mark and the separators U+2028 and U+2029 among them)
  together with a recorded turn-budget block makes the run throw the block's text, with
  phase \<open>error\<close>. Else a stop reason \<open>error\<close> makes the run throw, with phase \<open>error\<close>;
  else a stop reason \<open>aborted\<close> makes it throw, with phase \<open>aborted\<close>. Else the run returns,
  with phase \<open>done\<close> and exit code 0. Every thrown outcome has exit code 1.
\<close>

theorem terminal_outcome_priority:
  assumes "factoryError b = None"
  shows
   "(\<forall>v. violation (policyAfter b) = Some v \<and> v \<noteq> [] \<longrightarrow>
       runReplicantSubprocess th optT optC b
         = Rejected v ((details (settledState optT optC b))
             \<lparr>phase := Error, errorMessage := Some v, exitCode := Some 1\<rparr>))
  \<and> (truthyString (violation (policyAfter b)) = None \<longrightarrow>
      (SignalAborts \<in> set (steps b) \<longrightarrow>
         runReplicantSubprocess th optT optC b
           = Rejected (js ''Replicant subagent was aborted.'')
               ((details (settledState optT optC b))\<lparr>phase := Aborted, exitCode := Some 1\<rparr>))
    \<and> (SignalAborts \<notin> set (steps b) \<longrightarrow>
        (\<forall>e. promptError b = Some e \<longrightarrow>
           runReplicantSubprocess th optT optC b
             = Rejected e ((details (settledState optT optC b))
                 \<lparr>phase := Error, errorMessage := Some e, exitCode := Some 1\<rparr>))
      \<and> (promptError b = None \<longrightarrow>
          (\<forall>blocked.
               (\<forall>u \<in> set (finalText (settledState optT optC b)).
                  u \<in> {0x09, 0x0A, 0x0B, 0x0C, 0x0D, 0x20, 0xA0, 0x1680, 0x2028, 0x2029, 0x202F,
                           0x205F, 0x3000, 0xFEFF}
                  \<or> (0x2000 \<le> u \<and> u \<le> 0x200A))
               \<and> turnBudgetBlocked (policyAfter b) = Some blocked \<and> blocked \<noteq> [] \<longrightarrow>
             runReplicantSubprocess th optT optC b
               = Rejected blocked ((details (settledState optT optC b))
                   \<lparr>phase := Error, errorMessage := Some blocked, exitCode := Some 1\<rparr>))
        \<and> (\<not> (\<forall>u \<in> set (finalText (settledState optT optC b)).
                  u \<in> {0x09, 0x0A, 0x0B, 0x0C, 0x0D, 0x20, 0xA0, 0x1680, 0x2028, 0x2029, 0x202F,
                           0x205F, 0x3000, 0xFEFF}
                  \<or> (0x2000 \<le> u \<and> u \<le> 0x200A))
              \<or> truthyString (turnBudgetBlocked (policyAfter b)) = None \<longrightarrow>
            (stopReason (details (settledState optT optC b)) = Some (js ''error'') \<longrightarrow>
               runReplicantSubprocess th optT optC b
                 = Rejected (stopReasonError (js ''error'') (errorMessage (details (settledState optT optC b))))
                     ((details (settledState optT optC b))\<lparr>phase := Error, exitCode := Some 1\<rparr>))
          \<and> (stopReason (details (settledState optT optC b)) = Some (js ''aborted'') \<longrightarrow>
               runReplicantSubprocess th optT optC b
                 = Rejected (stopReasonError (js ''aborted'') (errorMessage (details (settledState optT optC b))))
                     ((details (settledState optT optC b))\<lparr>phase := Aborted, exitCode := Some 1\<rparr>))
          \<and> (stopReason (details (settledState optT optC b)) \<noteq> Some (js ''error'')
               \<and> stopReason (details (settledState optT optC b)) \<noteq> Some (js ''aborted'') \<longrightarrow>
               isResolved (runReplicantSubprocess th optT optC b)
               \<and> phase (outcomeDetails (runReplicantSubprocess th optT optC b)) = Done
               \<and> exitCode (outcomeDetails (runReplicantSubprocess th optT optC b)) = Some 0)))))"
proof -
  let ?st = "settledState optT optC b"
  have run: "runReplicantSubprocess th optT optC b
      = settle th (policyAfter b) (promptError b) ?st"
    using assms by (simp add: runReplicantSubprocess_def)
  have ab: "abortedBySignal ?st = (SignalAborts \<in> set (steps b))"
    using settledState_keeps by blast
  have blank: "(\<forall>u \<in> set (finalText ?st).
                  u \<in> {0x09, 0x0A, 0x0B, 0x0C, 0x0D, 0x20, 0xA0, 0x1680, 0x2028, 0x2029, 0x202F,
                           0x205F, 0x3000, 0xFEFF}
                  \<or> (0x2000 \<le> u \<and> u \<le> 0x200A))
      \<longleftrightarrow> trim (finalText ?st) = []"
    unfolding trim_empty_iff is_space_def by simp
  show ?thesis
    unfolding run settle_def Let_def ab blank
    by (auto simp: truthyString_def split: option.splits prod.splits if_splits)
qed

theorem terminal_outcome_priority_witness:
  "runReplicantSubprocess (truncateHead 51200 2000) None None
      \<lparr>factoryError = None, steps = [SignalAborts], promptError = Some (js ''boom''), messages = [],
       policyAfter = \<lparr>turnIndex = 0, toolCalls = 1, violation = Some (js ''out of scope''),
                       turnBudgetBlocked = Some (js ''blocked'')\<rparr>\<rparr>
     = Rejected (js ''out of scope'')
         ((details (settledState None None
            \<lparr>factoryError = None, steps = [SignalAborts], promptError = Some (js ''boom''), messages = [],
             policyAfter = \<lparr>turnIndex = 0, toolCalls = 1, violation = Some (js ''out of scope''),
                             turnBudgetBlocked = Some (js ''blocked'')\<rparr>\<rparr>))
          \<lparr>phase := Error, errorMessage := Some (js ''out of scope''), exitCode := Some 1\<rparr>)
   \<and> runReplicantSubprocess (truncateHead 51200 2000) None None
      \<lparr>factoryError = None, steps = [SignalAborts], promptError = Some (js ''boom''), messages = [],
       policyAfter = \<lparr>turnIndex = 0, toolCalls = 1, violation = None,
                       turnBudgetBlocked = Some (js ''blocked'')\<rparr>\<rparr>
     = Rejected (js ''Replicant subagent was aborted.'')
         ((details (settledState None None
            \<lparr>factoryError = None, steps = [SignalAborts], promptError = Some (js ''boom''), messages = [],
             policyAfter = \<lparr>turnIndex = 0, toolCalls = 1, violation = None,
                             turnBudgetBlocked = Some (js ''blocked'')\<rparr>\<rparr>))
          \<lparr>phase := Aborted, exitCode := Some 1\<rparr>)
   \<and> runReplicantSubprocess (truncateHead 51200 2000) None None
      \<lparr>factoryError = None, steps = [], promptError = None, messages = [],
       policyAfter = \<lparr>turnIndex = 5, toolCalls = 1, violation = None,
                       turnBudgetBlocked = Some (js ''blocked'')\<rparr>\<rparr>
     = Rejected (js ''blocked'')
         ((details (settledState None None
            \<lparr>factoryError = None, steps = [], promptError = None, messages = [],
             policyAfter = \<lparr>turnIndex = 5, toolCalls = 1, violation = None,
                             turnBudgetBlocked = Some (js ''blocked'')\<rparr>\<rparr>))
          \<lparr>phase := Error, errorMessage := Some (js ''blocked''), exitCode := Some 1\<rparr>)
   \<and> finalText (settledState None None
      \<lparr>factoryError = None, steps = [], promptError = None,
       messages = [\<lparr>messageRole = Some (js ''assistant''),
                    messageContent = Some [\<lparr>partType = Some (js ''text''),
                      partText = Some [0x20, 0x09, 0x0A, 0x0B, 0x0C, 0x0D, 0xA0, 0x1680, 0x2000, 0x2005,
                                       0x200A, 0x2028, 0x2029, 0x202F, 0x205F, 0x3000, 0xFEFF]\<rparr>],
                    messageStopReason = Some (js ''end_turn''), messageErrorMessage = None\<rparr>],
       policyAfter = \<lparr>turnIndex = 5, toolCalls = 1, violation = None,
                       turnBudgetBlocked = Some (js ''blocked'')\<rparr>\<rparr>)
     = [0x20, 0x09, 0x0A, 0x0B, 0x0C, 0x0D, 0xA0, 0x1680, 0x2000, 0x2005, 0x200A, 0x2028, 0x2029,
        0x202F, 0x205F, 0x3000, 0xFEFF]
   \<and> runReplicantSubprocess (truncateHead 51200 2000) None None
      \<lparr>factoryError = None, steps = [], promptError = None,
       messages = [\<lparr>messageRole = Some (js ''assistant''),
                    messageContent = Some [\<lparr>partType = Some (js ''text''),
                      partText = Some [0x20, 0x09, 0x0A, 0x0B, 0x0C, 0x0D, 0xA0, 0x1680, 0x2000, 0x2005,
                                       0x200A, 0x2028, 0x2029, 0x202F, 0x205F, 0x3000, 0xFEFF]\<rparr>],
                    messageStopReason = Some (js ''end_turn''), messageErrorMessage = None\<rparr>],
       policyAfter = \<lparr>turnIndex = 5, toolCalls = 1, violation = None,
                       turnBudgetBlocked = Some (js ''blocked'')\<rparr>\<rparr>
     = Rejected (js ''blocked'')
         ((details (settledState None None
            \<lparr>factoryError = None, steps = [], promptError = None,
             messages = [\<lparr>messageRole = Some (js ''assistant''),
                    messageContent = Some [\<lparr>partType = Some (js ''text''),
                      partText = Some [0x20, 0x09, 0x0A, 0x0B, 0x0C, 0x0D, 0xA0, 0x1680, 0x2000, 0x2005,
                                       0x200A, 0x2028, 0x2029, 0x202F, 0x205F, 0x3000, 0xFEFF]\<rparr>],
                    messageStopReason = Some (js ''end_turn''), messageErrorMessage = None\<rparr>],
             policyAfter = \<lparr>turnIndex = 5, toolCalls = 1, violation = None,
                             turnBudgetBlocked = Some (js ''blocked'')\<rparr>\<rparr>))
          \<lparr>phase := Error, errorMessage := Some (js ''blocked''), exitCode := Some 1\<rparr>)
   \<and> outcomeText (runReplicantSubprocess (truncateHead 51200 2000) None None
      \<lparr>factoryError = None, steps = [], promptError = None,
       messages = [\<lparr>messageRole = Some (js ''assistant''),
                    messageContent = Some [\<lparr>partType = Some (js ''text''), partText = Some (js ''final answer'')\<rparr>],
                    messageStopReason = Some (js ''end_turn''), messageErrorMessage = None\<rparr>],
       policyAfter = \<lparr>turnIndex = 5, toolCalls = 1, violation = None,
                       turnBudgetBlocked = Some (js ''blocked'')\<rparr>\<rparr>) = Some (js ''final answer'')
   \<and> phase (outcomeDetails (runReplicantSubprocess (truncateHead 51200 2000) None None
      \<lparr>factoryError = None, steps = [], promptError = None,
       messages = [\<lparr>messageRole = Some (js ''assistant''),
                    messageContent = Some [\<lparr>partType = Some (js ''text''), partText = Some (js ''final answer'')\<rparr>],
                    messageStopReason = Some (js ''end_turn''), messageErrorMessage = None\<rparr>],
       policyAfter = \<lparr>turnIndex = 5, toolCalls = 1, violation = None,
                       turnBudgetBlocked = Some (js ''blocked'')\<rparr>\<rparr>)) = Done
   \<and> exitCode (outcomeDetails (runReplicantSubprocess (truncateHead 51200 2000) None None
      \<lparr>factoryError = None, steps = [], promptError = None,
       messages = [\<lparr>messageRole = Some (js ''assistant''),
                    messageContent = Some [\<lparr>partType = Some (js ''text''), partText = Some (js ''final answer'')\<rparr>],
                    messageStopReason = Some (js ''end_turn''), messageErrorMessage = None\<rparr>],
       policyAfter = \<lparr>turnIndex = 5, toolCalls = 1, violation = None,
                       turnBudgetBlocked = Some (js ''blocked'')\<rparr>\<rparr>)) = Some 0
   \<and> outcomeText (runReplicantSubprocess (truncateHead 51200 2000) None None
      \<lparr>factoryError = None, steps = [], promptError = None,
       messages = [\<lparr>messageRole = Some (js ''assistant''),
                    messageContent = Some [\<lparr>partType = Some (js ''text''),
                                             partText = Some [0x85, 0x200B, 0x1F]\<rparr>],
                    messageStopReason = Some (js ''end_turn''), messageErrorMessage = None\<rparr>],
       policyAfter = \<lparr>turnIndex = 5, toolCalls = 1, violation = None,
                       turnBudgetBlocked = Some (js ''blocked'')\<rparr>\<rparr>) = Some [0x85, 0x200B, 0x1F]
   \<and> phase (outcomeDetails (runReplicantSubprocess (truncateHead 51200 2000) None None
      \<lparr>factoryError = None, steps = [], promptError = None,
       messages = [\<lparr>messageRole = Some (js ''assistant''),
                    messageContent = Some [\<lparr>partType = Some (js ''text''),
                                             partText = Some [0x85, 0x200B, 0x1F]\<rparr>],
                    messageStopReason = Some (js ''end_turn''), messageErrorMessage = None\<rparr>],
       policyAfter = \<lparr>turnIndex = 5, toolCalls = 1, violation = None,
                       turnBudgetBlocked = Some (js ''blocked'')\<rparr>\<rparr>)) = Done"
proof -
  let ?p1 = "\<lparr>turnIndex = 0, toolCalls = 1, violation = Some (js ''out of scope''),
              turnBudgetBlocked = Some (js ''blocked'')\<rparr>"
  let ?p2 = "\<lparr>turnIndex = 0, toolCalls = 1, violation = None, turnBudgetBlocked = Some (js ''blocked'')\<rparr>"
  let ?p3 = "\<lparr>turnIndex = 5, toolCalls = 1, violation = None, turnBudgetBlocked = Some (js ''blocked'')\<rparr>"
  let ?spaces = "[0x20, 0x09, 0x0A, 0x0B, 0x0C, 0x0D, 0xA0, 0x1680, 0x2000, 0x2005, 0x200A, 0x2028,
                  0x2029, 0x202F, 0x205F, 0x3000, 0xFEFF] :: jsstring"
  let ?b1 = "\<lparr>factoryError = None, steps = [SignalAborts], promptError = Some (js ''boom''),
              messages = [], policyAfter = ?p1\<rparr>"
  let ?b2 = "\<lparr>factoryError = None, steps = [SignalAborts], promptError = Some (js ''boom''),
              messages = [], policyAfter = ?p2\<rparr>"
  let ?b3 = "\<lparr>factoryError = None, steps = [], promptError = None, messages = [], policyAfter = ?p3\<rparr>"
  let ?b4 = "\<lparr>factoryError = None, steps = [], promptError = None,
       messages = [\<lparr>messageRole = Some (js ''assistant''),
                    messageContent = Some [\<lparr>partType = Some (js ''text''), partText = Some (js ''final answer'')\<rparr>],
                    messageStopReason = Some (js ''end_turn''), messageErrorMessage = None\<rparr>],
       policyAfter = ?p3\<rparr>"
  let ?b5 = "\<lparr>factoryError = None, steps = [], promptError = None,
       messages = [\<lparr>messageRole = Some (js ''assistant''),
                    messageContent = Some [\<lparr>partType = Some (js ''text''), partText = Some ?spaces\<rparr>],
                    messageStopReason = Some (js ''end_turn''), messageErrorMessage = None\<rparr>],
       policyAfter = ?p3\<rparr>"
  let ?b6 = "\<lparr>factoryError = None, steps = [], promptError = None,
       messages = [\<lparr>messageRole = Some (js ''assistant''),
                    messageContent = Some [\<lparr>partType = Some (js ''text''),
                                             partText = Some [0x85, 0x200B, 0x1F]\<rparr>],
                    messageStopReason = Some (js ''end_turn''), messageErrorMessage = None\<rparr>],
       policyAfter = ?p3\<rparr>"
  have empty3: "finalText (settledState None None ?b3) = []"
    by (simp add: settledState_def bootState_def)
  have text5: "finalText (settledState None None ?b5) = ?spaces"
    by (simp add: settledState_def bootState_def takeMessage_def extractAssistantText_def Let_def)
  have text6: "finalText (settledState None None ?b6) = [0x85, 0x200B, 0x1F]"
    by (simp add: settledState_def bootState_def takeMessage_def extractAssistantText_def Let_def)
  have text4: "finalText (settledState None None ?b4) = js ''final answer''"
    by (simp add: settledState_def bootState_def takeMessage_def extractAssistantText_def Let_def)
  have answered: "stopReason (details (settledState None None ?b4)) = Some (js ''end_turn'')"
    by (simp add: settledState_def bootState_def initialDetails_def takeMessage_def
        extractAssistantText_def Let_def)
  have out4: "outcomeText (runReplicantSubprocess (truncateHead 51200 2000) None None ?b4)
      = Some (js ''final answer'')"
    by (simp add: runReplicantSubprocess_def settledState_def bootState_def initialDetails_def
        takeMessage_def extractAssistantText_def settle_def truthyString_def truncateHead_def
        withinCeiling_def trim_def is_space_def Let_def)
  from terminal_outcome_priority [of ?b4 "truncateHead 51200 2000" None None, unfolded text4] answered
  have done4: "phase (outcomeDetails (runReplicantSubprocess (truncateHead 51200 2000) None None ?b4)) = Done
      \<and> exitCode (outcomeDetails (runReplicantSubprocess (truncateHead 51200 2000) None None ?b4)) = Some 0"
    by (simp add: truthyString_def)
  have other: "stopReason (details (settledState None None ?b6)) = Some (js ''end_turn'')"
    by (simp add: settledState_def bootState_def initialDetails_def takeMessage_def
        extractAssistantText_def Let_def)
  have out6: "outcomeText (runReplicantSubprocess (truncateHead 51200 2000) None None ?b6)
      = Some [0x85, 0x200B, 0x1F]"
    by (simp add: runReplicantSubprocess_def settledState_def bootState_def initialDetails_def
        takeMessage_def extractAssistantText_def settle_def truthyString_def truncateHead_def
        withinCeiling_def trim_def is_space_def Let_def)
  from terminal_outcome_priority [of ?b6 "truncateHead 51200 2000" None None, unfolded text6] other
  have done6: "phase (outcomeDetails (runReplicantSubprocess (truncateHead 51200 2000) None None ?b6)) = Done"
    by (simp add: truthyString_def)
  from terminal_outcome_priority [of ?b5 "truncateHead 51200 2000" None None, unfolded text5]
  have blocked5: "runReplicantSubprocess (truncateHead 51200 2000) None None ?b5
      = Rejected (js ''blocked'')
          ((details (settledState None None ?b5))
             \<lparr>phase := Error, errorMessage := Some (js ''blocked''), exitCode := Some 1\<rparr>)"
    by (simp add: truthyString_def)
  from terminal_outcome_priority [of ?b1 "truncateHead 51200 2000" None None]
    terminal_outcome_priority [of ?b2 "truncateHead 51200 2000" None None]
    terminal_outcome_priority [of ?b3 "truncateHead 51200 2000" None None, unfolded empty3]
  have "runReplicantSubprocess (truncateHead 51200 2000) None None ?b1
      = Rejected (js ''out of scope'')
          ((details (settledState None None ?b1))
             \<lparr>phase := Error, errorMessage := Some (js ''out of scope''), exitCode := Some 1\<rparr>)
    \<and> runReplicantSubprocess (truncateHead 51200 2000) None None ?b2
      = Rejected (js ''Replicant subagent was aborted.'')
          ((details (settledState None None ?b2))\<lparr>phase := Aborted, exitCode := Some 1\<rparr>)
    \<and> runReplicantSubprocess (truncateHead 51200 2000) None None ?b3
      = Rejected (js ''blocked'')
          ((details (settledState None None ?b3))
             \<lparr>phase := Error, errorMessage := Some (js ''blocked''), exitCode := Some 1\<rparr>)"
    by (simp add: truthyString_def)
  with out4 done4 text5 blocked5 out6 done6 show ?thesis by simp
qed

text \<open>
  The lines that \<open>truncateHead\<close> keeps: a head of the lines, within the byte limit, that
  stops only at a line that no longer fits.
\<close>

lemma takeFitting_prefix: "prefix (takeFitting mb used isFirst ls) ls"
  by (induction ls arbitrary: used isFirst) (auto simp: Let_def)

lemma join_prefix: "prefix xs ys \<Longrightarrow> prefix (join sep xs) (join sep ys)"
proof -
  assume "prefix xs ys"
  then obtain zs where ys: "ys = xs @ zs" by (auto simp: prefix_def)
  show ?thesis
  proof (cases "xs = [] \<or> zs = []")
    case True
    then show ?thesis using ys by auto
  next
    case False
    then show ?thesis using ys join_append[of xs zs sep] by simp
  qed
qed

lemma utf8Length_line: "utf8Length (a @ 0x0A # b) = utf8Length a + 1 + utf8Length b"
proof (induction a rule: utf8Length.induct)
  case 1
  show ?case by (cases b) simp_all
next
  case (2 u)
  show ?case by (cases b) auto
next
  case (3 u v us)
  then show ?case by auto
qed

lemma utf8Length_join:
  "utf8Length (join [0x0A] (x # xs))
     = utf8Length x + (if xs = [] then 0 else 1 + utf8Length (join [0x0A] xs))"
  by (cases xs) (simp_all add: utf8Length_line)

lemma takeFitting_bytes:
  "used \<le> mb \<Longrightarrow>
   used + utf8Length (join [0x0A] (takeFitting mb used isFirst ls))
     + (if isFirst \<or> takeFitting mb used isFirst ls = [] then 0 else 1) \<le> mb"
proof (induction ls arbitrary: used isFirst)
  case Nil
  then show ?case by simp
next
  case (Cons l ls)
  let ?lb = "utf8Length l + (if isFirst then 0 else 1)"
  show ?case
  proof (cases "used + ?lb > mb")
    case True
    with Cons.prems show ?thesis by (simp add: Let_def)
  next
    case False
    then have "used + ?lb \<le> mb" by simp
    from Cons.IH[OF this, of False] False show ?thesis
      by (simp add: Let_def utf8Length_join split: if_splits)
  qed
qed

lemma takeFitting_all:
  "used + utf8Length (join [0x0A] ls) + (if isFirst \<or> ls = [] then 0 else 1) \<le> mb \<Longrightarrow>
   takeFitting mb used isFirst ls = ls"
proof (induction ls arbitrary: used isFirst)
  case Nil
  then show ?case by simp
next
  case (Cons l ls)
  from Cons.prems
  have fits: "used + (utf8Length l + (if isFirst then 0 else 1)) \<le> mb"
    by (simp add: utf8Length_join split: if_splits)
  from Cons.prems
  have "used + (utf8Length l + (if isFirst then 0 else 1)) + utf8Length (join [0x0A] ls)
      + (if False \<or> ls = [] then 0 else 1) \<le> mb"
    by (simp add: utf8Length_join split: if_splits)
  from Cons.IH[OF this] fits show ?case by (simp add: Let_def)
qed

lemma takeFitting_stops:
  "length (takeFitting mb used isFirst ls) < length ls \<Longrightarrow>
   mb < used + utf8Length (join [0x0A] (take (length (takeFitting mb used isFirst ls) + 1) ls))
          + (if isFirst then 0 else 1)"
proof (induction ls arbitrary: used isFirst)
  case Nil
  then show ?case by simp
next
  case (Cons l ls)
  let ?lb = "utf8Length l + (if isFirst then 0 else 1)"
  show ?case
  proof (cases "used + ?lb > mb")
    case True
    then show ?thesis by (simp add: Let_def)
  next
    case False
    then have tf: "takeFitting mb used isFirst (l # ls) = l # takeFitting mb (used + ?lb) False ls"
      by (simp add: Let_def)
    with Cons.prems have shorter: "length (takeFitting mb (used + ?lb) False ls) < length ls" by simp
    from Cons.IH[OF this]
    have ih: "mb < used + ?lb + utf8Length (join [0x0A]
        (take (length (takeFitting mb (used + ?lb) False ls) + 1) ls)) + 1" by simp
    have ne: "take (length (takeFitting mb (used + ?lb) False ls) + 1) ls \<noteq> []"
      using shorter by (cases ls) auto
    show ?thesis
      unfolding tf using ih ne by (simp add: utf8Length_join)
  qed
qed

lemma headLines_head:
  "headLines mb ml content = take (length (headLines mb ml content)) (split_on 0x0A content)
   \<and> length (headLines mb ml content) \<le> ml
   \<and> prefix (join [0x0A] (headLines mb ml content)) content"
proof -
  let ?lines = "split_on 0x0A content"
  let ?kept = "headLines mb ml content"
  have pt: "prefix ?kept (take ml ?lines)"
    unfolding headLines_def by (rule takeFitting_prefix)
  then have pk: "prefix ?kept ?lines"
    using take_is_prefix[of ml ?lines] by (rule prefix_order.trans)
  then obtain rest where "?lines = ?kept @ rest" by (auto simp: prefix_def)
  then have "take (length ?kept) ?lines = ?kept" by (metis append_eq_conv_conj)
  moreover have "length ?kept \<le> ml"
    using prefix_length_le[OF pt] by simp
  moreover have "prefix (join [0x0A] ?kept) (join [0x0A] ?lines)"
    using pk by (rule join_prefix)
  then have "prefix (join [0x0A] ?kept) content" by (simp add: join_split_on)
  ultimately show ?thesis by simp
qed

lemma headLines_bytes: "utf8Length (join [0x0A] (headLines mb ml content)) \<le> mb"
  using takeFitting_bytes[of 0 mb True "take ml (split_on 0x0A content)"]
  by (simp add: headLines_def)

lemma headLines_stops:
  assumes "length (headLines mb ml content) < ml"
    and "length (headLines mb ml content) < length (split_on 0x0A content)"
  shows "mb < utf8Length (join [0x0A]
           (take (length (headLines mb ml content) + 1) (split_on 0x0A content)))"
proof -
  let ?lines = "split_on 0x0A content"
  let ?k = "length (headLines mb ml content)"
  from assms have "?k < length (take ml ?lines)" by simp
  then have "length (takeFitting mb 0 True (take ml ?lines)) < length (take ml ?lines)"
    by (simp add: headLines_def)
  from takeFitting_stops[OF this]
  have "mb < utf8Length (join [0x0A] (take (?k + 1) (take ml ?lines)))"
    by (simp add: headLines_def)
  moreover have "take (?k + 1) (take ml ?lines) = take (?k + 1) ?lines"
    using assms(1) by (simp add: min_def)
  ultimately show ?thesis by simp
qed

lemma headLines_exact:
  assumes "utf8Length (join [0x0A] (take ml (split_on 0x0A content))) \<le> mb"
  shows "headLines mb ml content = take ml (split_on 0x0A content)"
  unfolding headLines_def using assms by (intro takeFitting_all) simp

text \<open>
  Claim C6, as amended. On a run that returns, with \<open>truncateHead\<close> as the specification
  describes it, at the limits \<open>mb\<close> bytes and \<open>ml\<close> lines: a final text that is not empty
  and within both limits is returned as it is, with no marker, and \<open>finalTextTruncated\<close>
  is false. Of a final text beyond a limit the whole leading lines that fit are returned
  and the marker is appended, and \<open>finalTextTruncated\<close> is true: what is kept is a head of
  the text, of at most \<open>ml\<close> lines and \<open>mb\<close> bytes, and it stops short of \<open>ml\<close> lines only
  where the next line would pass the byte limit; in particular a text of more than \<open>ml\<close>
  lines whose first \<open>ml\<close> lines are within the byte limit is returned as exactly these
  \<open>ml\<close> lines, followed by the marker. An empty final text is returned as the placeholder
  \<open>(no output)\<close>.
\<close>

theorem final_text_truncation:
  assumes "isResolved (runReplicantSubprocess (truncateHead mb ml) optT optC b)"
  shows
   "(finalText (settledState optT optC b) \<noteq> []
       \<and> withinCeiling mb ml (finalText (settledState optT optC b)) \<longrightarrow>
       outcomeText (runReplicantSubprocess (truncateHead mb ml) optT optC b)
         = Some (finalText (settledState optT optC b))
       \<and> \<not> finalTextTruncated (outcomeDetails (runReplicantSubprocess (truncateHead mb ml) optT optC b)))
  \<and> (finalText (settledState optT optC b) \<noteq> []
       \<and> \<not> withinCeiling mb ml (finalText (settledState optT optC b)) \<longrightarrow>
       outcomeText (runReplicantSubprocess (truncateHead mb ml) optT optC b)
         = Some (join [0x0A] (headLines mb ml (finalText (settledState optT optC b))) @ truncationMarker)
       \<and> finalTextTruncated (outcomeDetails (runReplicantSubprocess (truncateHead mb ml) optT optC b))
       \<and> headLines mb ml (finalText (settledState optT optC b))
           = take (length (headLines mb ml (finalText (settledState optT optC b))))
               (split_on 0x0A (finalText (settledState optT optC b)))
       \<and> prefix (join [0x0A] (headLines mb ml (finalText (settledState optT optC b))))
           (finalText (settledState optT optC b))
       \<and> length (headLines mb ml (finalText (settledState optT optC b))) \<le> ml
       \<and> utf8Length (join [0x0A] (headLines mb ml (finalText (settledState optT optC b)))) \<le> mb
       \<and> (length (headLines mb ml (finalText (settledState optT optC b))) < ml
            \<and> length (headLines mb ml (finalText (settledState optT optC b)))
                < length (split_on 0x0A (finalText (settledState optT optC b))) \<longrightarrow>
            mb < utf8Length (join [0x0A]
                   (take (length (headLines mb ml (finalText (settledState optT optC b))) + 1)
                      (split_on 0x0A (finalText (settledState optT optC b))))))
       \<and> (ml < length (split_on 0x0A (finalText (settledState optT optC b)))
            \<and> utf8Length (join [0x0A] (take ml (split_on 0x0A (finalText (settledState optT optC b)))))
                \<le> mb \<longrightarrow>
            length (headLines mb ml (finalText (settledState optT optC b))) = ml
            \<and> outcomeText (runReplicantSubprocess (truncateHead mb ml) optT optC b)
                = Some (join [0x0A] (take ml (split_on 0x0A (finalText (settledState optT optC b))))
                        @ truncationMarker)))
  \<and> (finalText (settledState optT optC b) = [] \<and> withinCeiling mb ml (js ''(no output)'') \<longrightarrow>
       outcomeText (runReplicantSubprocess (truncateHead mb ml) optT optC b) = Some (js ''(no output)'')
       \<and> \<not> finalTextTruncated (outcomeDetails (runReplicantSubprocess (truncateHead mb ml) optT optC b)))"
proof -
  let ?st = "settledState optT optC b"
  let ?ft = "finalText ?st"
  let ?th = "truncateHead mb ml"
  let ?shown = "if ?ft = [] then js ''(no output)'' else ?ft"
  from assms have run: "runReplicantSubprocess ?th optT optC b
      = Resolved (if snd (?th ?shown) then fst (?th ?shown) @ truncationMarker else fst (?th ?shown))
          ((details ?st)\<lparr>finalTextTruncated := snd (?th ?shown), phase := Done,
             exitCode := Some 0, message := js ''completed''\<rparr>)"
    by (auto simp: runReplicantSubprocess_def settle_def Let_def
        split: option.splits if_splits prod.splits)
  have within: "finalText ?st \<noteq> [] \<and> withinCeiling mb ml ?ft \<longrightarrow>
       outcomeText (runReplicantSubprocess ?th optT optC b) = Some ?ft
       \<and> \<not> finalTextTruncated (outcomeDetails (runReplicantSubprocess ?th optT optC b))"
    unfolding run by (simp add: truncateHead_def)
  have placeholder: "?ft = [] \<and> withinCeiling mb ml (js ''(no output)'') \<longrightarrow>
       outcomeText (runReplicantSubprocess ?th optT optC b) = Some (js ''(no output)'')
       \<and> \<not> finalTextTruncated (outcomeDetails (runReplicantSubprocess ?th optT optC b))"
    unfolding run by (simp add: truncateHead_def)
  have cut: "?ft \<noteq> [] \<and> \<not> withinCeiling mb ml ?ft \<longrightarrow>
       outcomeText (runReplicantSubprocess ?th optT optC b)
         = Some (join [0x0A] (headLines mb ml ?ft) @ truncationMarker)
       \<and> finalTextTruncated (outcomeDetails (runReplicantSubprocess ?th optT optC b))"
    unfolding run by (simp add: truncateHead_def)
  have exact: "ml < length (split_on 0x0A ?ft)
      \<and> utf8Length (join [0x0A] (take ml (split_on 0x0A ?ft))) \<le> mb \<longrightarrow>
      headLines mb ml ?ft = take ml (split_on 0x0A ?ft) \<and> length (headLines mb ml ?ft) = ml"
  proof
    assume a: "ml < length (split_on 0x0A ?ft)
      \<and> utf8Length (join [0x0A] (take ml (split_on 0x0A ?ft))) \<le> mb"
    then have "headLines mb ml ?ft = take ml (split_on 0x0A ?ft)"
      by (intro headLines_exact) simp
    with a show "headLines mb ml ?ft = take ml (split_on 0x0A ?ft) \<and> length (headLines mb ml ?ft) = ml"
      by simp
  qed
  from within placeholder cut exact headLines_head[of mb ml ?ft] headLines_bytes[of mb ml ?ft]
    headLines_stops[of mb ml ?ft]
  show ?thesis by metis
qed

theorem final_text_truncation_witness:
  "outcomeText (runReplicantSubprocess (truncateHead 51200 3) None None
      \<lparr>factoryError = None, steps = [], promptError = None,
       messages = [\<lparr>messageRole = Some (js ''assistant''),
                    messageContent = Some [\<lparr>partType = Some (js ''text''),
                      partText = Some (js ''line-1'' @ [0x0A] @ js ''line-2'' @ [0x0A] @ js ''line-3''
                                         @ [0x0A] @ js ''line-4'' @ [0x0A] @ js ''line-5'')\<rparr>],
                    messageStopReason = Some (js ''end_turn''), messageErrorMessage = None\<rparr>],
       policyAfter = \<lparr>turnIndex = 0, toolCalls = 0, violation = None, turnBudgetBlocked = None\<rparr>\<rparr>)
     = Some (js ''line-1'' @ [0x0A] @ js ''line-2'' @ [0x0A] @ js ''line-3'' @ truncationMarker)
   \<and> outcomeText (runReplicantSubprocess (truncateHead 10 2) None None
      \<lparr>factoryError = None, steps = [], promptError = None,
       messages = [\<lparr>messageRole = Some (js ''assistant''),
                    messageContent = Some [\<lparr>partType = Some (js ''text''),
                                             partText = Some (js ''abc'' @ [0x0A] @ js ''defghijkl'')\<rparr>],
                    messageStopReason = Some (js ''end_turn''), messageErrorMessage = None\<rparr>],
       policyAfter = \<lparr>turnIndex = 0, toolCalls = 0, violation = None, turnBudgetBlocked = None\<rparr>\<rparr>)
     = Some (js ''abc'' @ truncationMarker)
   \<and> outcomeText (runReplicantSubprocess (truncateHead 10 2) None None
      \<lparr>factoryError = None, steps = [], promptError = None,
       messages = [\<lparr>messageRole = Some (js ''assistant''),
                    messageContent = Some [\<lparr>partType = Some (js ''text''), partText = Some (js ''fine'')\<rparr>],
                    messageStopReason = Some (js ''end_turn''), messageErrorMessage = None\<rparr>],
       policyAfter = \<lparr>turnIndex = 0, toolCalls = 0, violation = None, turnBudgetBlocked = None\<rparr>\<rparr>)
     = Some (js ''fine'')
   \<and> finalTextTruncated (outcomeDetails (runReplicantSubprocess (truncateHead 51200 3) None None
      \<lparr>factoryError = None, steps = [], promptError = None,
       messages = [\<lparr>messageRole = Some (js ''assistant''),
                    messageContent = Some [\<lparr>partType = Some (js ''text''),
                      partText = Some (js ''line-1'' @ [0x0A] @ js ''line-2'' @ [0x0A] @ js ''line-3''
                                         @ [0x0A] @ js ''line-4'' @ [0x0A] @ js ''line-5'')\<rparr>],
                    messageStopReason = Some (js ''end_turn''), messageErrorMessage = None\<rparr>],
       policyAfter = \<lparr>turnIndex = 0, toolCalls = 0, violation = None, turnBudgetBlocked = None\<rparr>\<rparr>))
   \<and> \<not> finalTextTruncated (outcomeDetails (runReplicantSubprocess (truncateHead 10 2) None None
      \<lparr>factoryError = None, steps = [], promptError = None,
       messages = [\<lparr>messageRole = Some (js ''assistant''),
                    messageContent = Some [\<lparr>partType = Some (js ''text''), partText = Some (js ''fine'')\<rparr>],
                    messageStopReason = Some (js ''end_turn''), messageErrorMessage = None\<rparr>],
       policyAfter = \<lparr>turnIndex = 0, toolCalls = 0, violation = None, turnBudgetBlocked = None\<rparr>\<rparr>))"
proof -
  let ?pol = "\<lparr>turnIndex = 0, toolCalls = 0, violation = None, turnBudgetBlocked = None\<rparr>"
  let ?five = "js ''line-1'' @ [0x0A] @ js ''line-2'' @ [0x0A] @ js ''line-3''
                 @ [0x0A] @ js ''line-4'' @ [0x0A] @ js ''line-5''"
  let ?lines = "\<lparr>factoryError = None, steps = [], promptError = None,
       messages = [\<lparr>messageRole = Some (js ''assistant''),
                    messageContent = Some [\<lparr>partType = Some (js ''text''), partText = Some ?five\<rparr>],
                    messageStopReason = Some (js ''end_turn''), messageErrorMessage = None\<rparr>],
       policyAfter = ?pol\<rparr>"
  let ?long = "\<lparr>factoryError = None, steps = [], promptError = None,
       messages = [\<lparr>messageRole = Some (js ''assistant''),
                    messageContent = Some [\<lparr>partType = Some (js ''text''),
                                             partText = Some (js ''abc'' @ [0x0A] @ js ''defghijkl'')\<rparr>],
                    messageStopReason = Some (js ''end_turn''), messageErrorMessage = None\<rparr>],
       policyAfter = ?pol\<rparr>"
  let ?short = "\<lparr>factoryError = None, steps = [], promptError = None,
       messages = [\<lparr>messageRole = Some (js ''assistant''),
                    messageContent = Some [\<lparr>partType = Some (js ''text''), partText = Some (js ''fine'')\<rparr>],
                    messageStopReason = Some (js ''end_turn''), messageErrorMessage = None\<rparr>],
       policyAfter = ?pol\<rparr>"
  have t0: "finalText (settledState None None ?lines) = ?five"
    by (simp add: settledState_def bootState_def takeMessage_def extractAssistantText_def Let_def)
  have t1: "finalText (settledState None None ?long) = js ''abc'' @ [0x0A] @ js ''defghijkl''"
    by (simp add: settledState_def bootState_def takeMessage_def extractAssistantText_def Let_def)
  have t2: "finalText (settledState None None ?short) = js ''fine''"
    by (simp add: settledState_def bootState_def takeMessage_def extractAssistantText_def Let_def)
  have r0: "isResolved (runReplicantSubprocess (truncateHead 51200 3) None None ?lines)"
    by (simp add: runReplicantSubprocess_def settledState_def bootState_def initialDetails_def
        takeMessage_def extractAssistantText_def settle_def truthyString_def trim_def is_space_def
        Let_def split: prod.splits)
  have r1: "isResolved (runReplicantSubprocess (truncateHead 10 2) None None ?long)"
    by (simp add: runReplicantSubprocess_def settledState_def bootState_def initialDetails_def
        takeMessage_def extractAssistantText_def settle_def truthyString_def trim_def is_space_def
        Let_def split: prod.splits)
  have r2: "isResolved (runReplicantSubprocess (truncateHead 10 2) None None ?short)"
    by (simp add: runReplicantSubprocess_def settledState_def bootState_def initialDetails_def
        takeMessage_def extractAssistantText_def settle_def truthyString_def trim_def is_space_def
        Let_def split: prod.splits)
  have c0: "?five \<noteq> [] \<and> \<not> withinCeiling 51200 3 ?five \<and> 3 < length (split_on 0x0A ?five)
      \<and> utf8Length (join [0x0A] (take 3 (split_on 0x0A ?five))) \<le> 51200"
    by (simp add: withinCeiling_def)
  have kept0: "join [0x0A] (take 3 (split_on 0x0A ?five))
      = js ''line-1'' @ [0x0A] @ js ''line-2'' @ [0x0A] @ js ''line-3''"
    by simp
  have c1: "js ''abc'' @ [0x0A] @ js ''defghijkl'' \<noteq> []
      \<and> \<not> withinCeiling 10 2 (js ''abc'' @ [0x0A] @ js ''defghijkl'')"
    by (simp add: withinCeiling_def)
  have kept1: "join [0x0A] (headLines 10 2 (js ''abc'' @ [0x0A] @ js ''defghijkl'')) = js ''abc''"
    by (simp add: headLines_def)
  have c2: "js ''fine'' \<noteq> [] \<and> withinCeiling 10 2 (js ''fine'')"
    by (simp add: withinCeiling_def)
  from final_text_truncation [OF r0, unfolded t0] c0
  have "outcomeText (runReplicantSubprocess (truncateHead 51200 3) None None ?lines)
      = Some (join [0x0A] (take 3 (split_on 0x0A ?five)) @ truncationMarker)"
    by blast
  then have 0: "outcomeText (runReplicantSubprocess (truncateHead 51200 3) None None ?lines)
      = Some ((js ''line-1'' @ [0x0A] @ js ''line-2'' @ [0x0A] @ js ''line-3'') @ truncationMarker)"
    unfolding kept0 .
  from final_text_truncation [OF r1, unfolded t1] c1
  have "outcomeText (runReplicantSubprocess (truncateHead 10 2) None None ?long)
      = Some (join [0x0A] (headLines 10 2 (js ''abc'' @ [0x0A] @ js ''defghijkl'')) @ truncationMarker)"
    by blast
  then have 1: "outcomeText (runReplicantSubprocess (truncateHead 10 2) None None ?long)
      = Some (js ''abc'' @ truncationMarker)"
    unfolding kept1 .
  from final_text_truncation [OF r2, unfolded t2] c2
  have 2: "outcomeText (runReplicantSubprocess (truncateHead 10 2) None None ?short) = Some (js ''fine'')"
    by blast
  from final_text_truncation [OF r0, unfolded t0] c0
  have 3: "finalTextTruncated (outcomeDetails (runReplicantSubprocess (truncateHead 51200 3) None None ?lines))"
    by blast
  from final_text_truncation [OF r2, unfolded t2] c2
  have 4: "\<not> finalTextTruncated (outcomeDetails (runReplicantSubprocess (truncateHead 10 2) None None ?short))"
    by blast
  from 0 1 2 3 4 show ?thesis by simp
qed

text \<open>
  The claim as it was stated (a final text within the limits is returned unmodified)
  fails for the empty final text: a run in which the session produces no assistant text
  and no failure returns the placeholder \<open>(no output)\<close>.
\<close>

theorem final_text_counterexample:
  "outcomeText (runReplicantSubprocess (truncateHead 51200 2000) None None
      \<lparr>factoryError = None, steps = [], promptError = None, messages = [],
       policyAfter = \<lparr>turnIndex = 0, toolCalls = 0, violation = None, turnBudgetBlocked = None\<rparr>\<rparr>)
     = Some (js ''(no output)'')
   \<and> finalText (settledState None None
      \<lparr>factoryError = None, steps = [], promptError = None, messages = [],
       policyAfter = \<lparr>turnIndex = 0, toolCalls = 0, violation = None, turnBudgetBlocked = None\<rparr>\<rparr>) = []
   \<and> withinCeiling 51200 2000 []"
  by (simp add: runReplicantSubprocess_def settledState_def bootState_def initialDetails_def
      settle_def truthyString_def truncateHead_def withinCeiling_def trim_def Let_def)


section \<open>Properties of the resolver\<close>

lemma split_on_first: "hd (split_on c p) = takeWhile (\<lambda>x. x \<noteq> c) p"
  by (induction p) (auto split: list.splits simp: split_on_nonempty)

lemma second_piece:
  assumes "c \<notin> set a"
  shows "split_on c (a @ c # b) = a # split_on c b"
  using assms by (simp add: split_on_append split_on_no_sep)

text \<open>
  Claim C9, as amended. When the entry has no full name, the slug of a qualified name
  that contains a colon is the text between its first colon and its second colon (or the
  end of the name); for a qualified name with exactly one colon that is the text after
  the last colon.
\<close>

theorem slug_from_qualified_name:
  assumes "cu CHR '':'' \<in> set q"
  shows "toRepoSlug None (Some q)
           = takeWhile (\<lambda>c. c \<noteq> cu CHR '':'') (tl (dropWhile (\<lambda>c. c \<noteq> cu CHR '':'') q))
    \<and> (length (filter (\<lambda>c. c = cu CHR '':'') q) = 1 \<longrightarrow> toRepoSlug None (Some q) = afterLastColon q)"
proof -
  let ?P = "\<lambda>c. c \<noteq> cu CHR '':''"
  let ?a = "takeWhile ?P q" and ?d = "dropWhile ?P q"
  from assms have "?d \<noteq> []" by (auto simp: dropWhile_eq_Nil_conv)
  moreover have "\<not> ?P (hd ?d)" using \<open>?d \<noteq> []\<close> hd_dropWhile by blast
  ultimately obtain b where d: "?d = cu CHR '':'' # b" by (cases ?d) auto
  have q: "q = ?a @ cu CHR '':'' # b" using d takeWhile_dropWhile_id[of ?P q] by simp
  have na: "cu CHR '':'' \<notin> set ?a" by (auto dest: set_takeWhileD)
  have sp: "split_on (cu CHR '':'') q = ?a # split_on (cu CHR '':'') b"
    using second_piece[OF na, of b] q by simp
  obtain y ys where yb: "split_on (cu CHR '':'') b = y # ys"
    using split_on_nonempty[of "cu CHR '':''" b] by (cases "split_on (cu CHR '':'') b") auto
  have y: "y = takeWhile ?P b" using split_on_first[of "cu CHR '':''" b] yb by simp
  have slug: "toRepoSlug None (Some q) = takeWhile ?P b"
    using assms sp yb y by (simp add: toRepoSlug_def)
  have one: "length (filter (\<lambda>c. c = cu CHR '':'') q) = 1 \<Longrightarrow> takeWhile ?P b = afterLastColon q"
  proof -
    assume "length (filter (\<lambda>c. c = cu CHR '':'') q) = 1"
    then have "length (filter (\<lambda>c. c = cu CHR '':'') (?a @ cu CHR '':'' # b)) = 1" using q by simp
    then have "filter (\<lambda>c. c = cu CHR '':'') b = []" by simp
    then have nb: "cu CHR '':'' \<notin> set b" by (auto simp: filter_empty_conv)
    then have "takeWhile ?P b = b" by (auto simp: takeWhile_eq_all_conv)
    moreover have tw: "takeWhile ?P (rev b) = rev b"
      using nb by (auto simp: takeWhile_eq_all_conv)
    have "afterLastColon (?a @ cu CHR '':'' # b) = rev (takeWhile ?P (rev b))"
      by (simp add: afterLastColon_def takeWhile_tail)
    then have "afterLastColon (?a @ cu CHR '':'' # b) = b"
      unfolding tw by simp
    ultimately show ?thesis using q by simp
  qed
  from slug one d show ?thesis by simp
qed

theorem slug_from_qualified_name_witness:
  "toRepoSlug None (Some (js ''github.com:owner/repo'')) = js ''owner/repo''
   \<and> afterLastColon (js ''github.com:owner/repo'') = js ''owner/repo''"
  using slug_from_qualified_name [of "js ''github.com:owner/repo''"]
  by (simp add: afterLastColon_def)

text \<open>
  The claim as it was stated fails for a qualified name with two colons: the slug is the
  text between them, not the text after the second.
\<close>

theorem slug_counterexample:
  "toRepoSlug None (Some (js ''gitlab.com:group:project'')) = js ''group''
   \<and> afterLastColon (js ''gitlab.com:group:project'') = js ''project''"
  by (simp add: toRepoSlug_def afterLastColon_def)

text \<open>A reference path in a returned value is empty or usable.\<close>

lemma validateAssets_reference:
  assumes "validateAssets host w eff origin entry cands = (Inr r, w')"
  shows "w' = w \<and> referencePath r
      = usableReferencePath host (case MapShowJson.referencePath entry of Some p \<Rightarrow> p | None \<Rightarrow> []) w"
  using assms by (auto simp: validateAssets_def Let_def split: if_splits)

lemma usableReferencePath_ok:
  "usableReferencePath host p w = []
   \<or> (\<not> endsWith (usableReferencePath host p w) (js ''/'')
      \<and> \<not> endsWith (usableReferencePath host p w) [0x5C]
      \<and> stat host (usableReferencePath host p w) w = Some RegularFile)"
  by (simp add: usableReferencePath_def pathIsFile_def)

lemma validateAssets_usable:
  assumes "validateAssets host w eff origin entry cands = (Inr r, w')"
  shows "referencePath r = []
   \<or> (\<not> endsWith (referencePath r) (js ''/'') \<and> \<not> endsWith (referencePath r) [0x5C]
      \<and> stat host (referencePath r) w' = Some RegularFile)"
  using validateAssets_reference[OF assms] usableReferencePath_ok by metis

lemma resolveSelected_usable:
  assumes "resolveSelected host w sel cands = (Inr r, w')"
  shows "referencePath r = []
   \<or> (\<not> endsWith (referencePath r) (js ''/'') \<and> \<not> endsWith (referencePath r) [0x5C]
      \<and> stat host (referencePath r) w' = Some RegularFile)"
  using assms
  by (auto simp: resolveSelected_def Let_def split: if_splits prod.splits sum.splits
      dest!: validateAssets_usable)

lemma resolve_usable:
  assumes "resolveRepoWithOffworld host w task repoHint taskHint = (Inr r, w')"
  shows "referencePath r = []
   \<or> (\<not> endsWith (referencePath r) (js ''/'') \<and> \<not> endsWith (referencePath r) [0x5C]
      \<and> stat host (referencePath r) w' = Some RegularFile)"
  using assms
  by (auto simp: resolveRepoWithOffworld_def split: if_splits prod.splits sum.splits option.splits
      dest!: resolveSelected_usable)

text \<open>The reference paths that the map reports change nothing but the reference path returned.\<close>

lemma withReferencePaths_simps [simp]:
  "exec (withReferencePaths g host) = exec host"
  "stat (withReferencePaths g host) = stat host"
  "hasUI (withReferencePaths g host) = hasUI host"
  "select (withReferencePaths g host) = select host"
  "confirm (withReferencePaths g host) = confirm host"
  "numberText (withReferencePaths g host) = numberText host"
  "parseMapSearch (withReferencePaths g host) = parseMapSearch host"
  "parseMapShow (withReferencePaths g host) s
     = map_option (\<lambda>entry. entry\<lparr>MapShowJson.referencePath := g entry\<rparr>) (parseMapShow host s)"
  by (simp_all add: withReferencePaths_def)

lemma runOw_with [simp]: "runOw (withReferencePaths g host) args w = runOw host args w"
  by (simp add: runOw_def)

lemma ensureOwInstalled_with [simp]:
  "ensureOwInstalled (withReferencePaths g host) w = ensureOwInstalled host w"
  by (simp add: ensureOwInstalled_def split: prod.splits sum.splits)

lemma mapSearch_with [simp]: "mapSearch (withReferencePaths g host) t w = mapSearch host t w"
  by (simp add: mapSearch_def split: prod.splits sum.splits option.splits)

lemma pullRepo_with [simp]: "pullRepo (withReferencePaths g host) n w = pullRepo host n w"
  by (simp add: pullRepo_def split: prod.splits sum.splits)

lemma candidateLabel_with [simp]:
  "candidateLabel (withReferencePaths g host) = candidateLabel host"
  by (rule ext) (simp add: candidateLabel_def)

lemma selectCandidate_with [simp]:
  "selectCandidate (withReferencePaths g host) cs = selectCandidate host cs"
  by (simp add: selectCandidate_def Let_def split: list.splits option.splits)

lemma pathLooksLikeClone_with [simp]:
  "pathLooksLikeClone (withReferencePaths g host) p w = pathLooksLikeClone host p w"
  by (simp add: pathLooksLikeClone_def pathIsDir_def split: option.splits)

lemma hasClone_with [simp]:
  "hasClone (withReferencePaths g host) (entry\<lparr>MapShowJson.referencePath := x\<rparr>) w = hasClone host entry w"
  by (simp add: hasClone_def split: option.splits)

lemma mapShow_with:
  "mapShow (withReferencePaths g host) n w =
     (case mapShow host n w of
        (Inl e, w') \<Rightarrow> (Inl e, w')
      | (Inr entry, w') \<Rightarrow> (Inr (entry\<lparr>MapShowJson.referencePath := g entry\<rparr>), w'))"
  by (simp add: mapShow_def split: prod.splits sum.splits option.splits)

lemma validateAssets_with:
  "eraseReference (validateAssets (withReferencePaths g host) w eff origin
       (entry\<lparr>MapShowJson.referencePath := x\<rparr>) cands)
     = eraseReference (validateAssets host w eff origin entry cands)"
  by (simp add: validateAssets_def eraseReference_def Let_def)

lemma eraseReference_Inl [simp]: "eraseReference (Inl e, w) = (Inl e, w)"
  by (simp add: eraseReference_def)

lemma resolveSelected_with:
  "eraseReference (resolveSelected (withReferencePaths g host) w sel cands)
     = eraseReference (resolveSelected host w sel cands)"
  by (simp add: resolveSelected_def mapShow_with validateAssets_with Let_def
      split: prod.splits sum.splits)

lemma resolve_with:
  "eraseReference (resolveRepoWithOffworld (withReferencePaths g host) w task repoHint taskHint)
     = eraseReference (resolveRepoWithOffworld host w task repoHint taskHint)"
  by (simp add: resolveRepoWithOffworld_def resolveSelected_with
      split: prod.splits sum.splits option.splits)


text \<open>
  Claim C7. When the mapping tool is there, no repository is given or found in the task,
  and the map search returns its matches: without a user interface, two or more matches
  make the resolution fail with \<open>repo_ambiguous\<close>, whatever their scores are, and no
  further command is run; exactly one match is selected without any question, with a user
  interface or without, and the resolution goes on with it.
\<close>

theorem search_disambiguation:
  assumes "ensureOwInstalled host w = (Inr (), w0)"
    and "truthyString (case repoHint of Some h \<Rightarrow> Some h | None \<Rightarrow> taskHint) = None"
    and "mapSearch host (extractSearchTerm task) w0 = (Inr matches, w1)"
  shows
   "(\<not> hasUI host \<and> 2 \<le> length matches \<longrightarrow>
       (case fst (resolveRepoWithOffworld host w task repoHint taskHint) of
          Inl e \<Rightarrow> errorCode e = repo_ambiguous
        | Inr _ \<Rightarrow> False)
       \<and> snd (resolveRepoWithOffworld host w task repoHint taskHint) = w1
       \<and> (case selectCandidate host matches of
            Inl e \<Rightarrow> errorCode e = repo_ambiguous
          | Inr _ \<Rightarrow> False))
  \<and> (\<forall>c. matches = [c] \<longrightarrow>
       selectCandidate host matches = Inr c
       \<and> resolveRepoWithOffworld host w task repoHint taskHint
           = resolveSelected host w1 (fullName c) [(fullName c, score c)])"
proof -
  have many: "\<not> hasUI host \<Longrightarrow> 2 \<le> length matches \<Longrightarrow>
      (case selectCandidate host matches of Inl e \<Rightarrow> errorCode e = repo_ambiguous | Inr _ \<Rightarrow> False)"
    by (cases matches rule: list.exhaust; cases "tl matches")
       (auto simp: selectCandidate_def Let_def)
  have one: "selectCandidate host [c] = Inr c" for c
    by (simp add: selectCandidate_def)
  have run: "resolveRepoWithOffworld host w task repoHint taskHint =
      (if matches = [] then
         (Inl (OffworldError (js ''No Offworld map matches found for this task.'') repo_unresolved
                 (Some (js ''Pull a repository first, e.g. '' @ [0x60]
                        @ js ''ow pull owner/repo --clone-only'' @ [0x60]
                        @ js '', then retry with '' @ [0x60] @ js ''repo: '' @ [0x22]
                        @ js ''owner/repo'' @ [0x22] @ [0x60] @ js ''.''))), w1)
       else (case selectCandidate host matches of
               Inl e \<Rightarrow> (Inl e, w1)
             | Inr selected \<Rightarrow>
                 resolveSelected host w1 (fullName selected)
                   (map (\<lambda>m. (fullName m, score m)) matches)))"
    using assms by (simp add: resolveRepoWithOffworld_def)
  show ?thesis
  proof (intro conjI impI allI)
    assume a: "\<not> hasUI host \<and> 2 \<le> length matches"
    then have ne: "matches \<noteq> []" by auto
    from a many show "case selectCandidate host matches of
        Inl e \<Rightarrow> errorCode e = repo_ambiguous | Inr _ \<Rightarrow> False" by simp
    with ne show "case fst (resolveRepoWithOffworld host w task repoHint taskHint) of
        Inl e \<Rightarrow> errorCode e = repo_ambiguous | Inr _ \<Rightarrow> False"
      unfolding run by (simp split: sum.splits)
    from a many ne show "snd (resolveRepoWithOffworld host w task repoHint taskHint) = w1"
      unfolding run by (simp split: sum.splits)
  next
    fix c assume m: "matches = [c]"
    then show "selectCandidate host matches = Inr c" by (simp add: one)
    from m show "resolveRepoWithOffworld host w task repoHint taskHint
        = resolveSelected host w1 (fullName c) [(fullName c, score c)]"
      unfolding run by (simp add: one)
  qed
qed

theorem search_disambiguation_witness:
  "fst (resolveRepoWithOffworld exampleHost False (js ''trace subagent architecture'') None None)
     = Inl (OffworldError
             (js ''Multiple Offworld map matches found; repository is ambiguous in non-interactive mode.'')
             repo_ambiguous
             (Some (js ''Re-run with an explicit '' @ [0x60] @ js ''repo'' @ [0x60]
                    @ js '' value (e.g. '' @ [0x60] @ js ''repo: '' @ [0x22] @ js ''owner/repo''
                    @ [0x22] @ [0x60] @ js '').'')))
   \<and> snd (resolveRepoWithOffworld exampleHost False (js ''trace subagent architecture'') None None) = False
   \<and> resolveRepoWithOffworld
        (exampleHost\<lparr>parseMapSearch := (\<lambda>s. Some [\<lparr>fullName = js ''acme/tools'', score = 11 / 100\<rparr>])\<rparr>)
        False (js ''trace subagent architecture'') None None
      = resolveSelected
        (exampleHost\<lparr>parseMapSearch := (\<lambda>s. Some [\<lparr>fullName = js ''acme/tools'', score = 11 / 100\<rparr>])\<rparr>)
        False (js ''acme/tools'') [(js ''acme/tools'', 11 / 100)]"
proof -
  let ?task = "js ''trace subagent architecture''"
  let ?two = "[\<lparr>fullName = js ''acme/tools'', score = 97 / 100\<rparr>, \<lparr>fullName = js ''acme/other'', score = 11 / 100\<rparr>]"
  let ?single = "exampleHost\<lparr>parseMapSearch := (\<lambda>s. Some [\<lparr>fullName = js ''acme/tools'', score = 11 / 100\<rparr>])\<rparr>"
  have same: "extractSearchTerm ?task = ?task"
    by (simp add: extractSearchTerm_def trim_def is_space_def)
  have v: "ensureOwInstalled exampleHost False = (Inr (), False)"
    by (simp add: ensureOwInstalled_def runOw_def owCommandHead_def exampleHost_def)
  have s: "mapSearch exampleHost (extractSearchTerm ?task) False = (Inr ?two, False)"
    unfolding same by (simp add: mapSearch_def runOw_def owCommandHead_def exampleHost_def)
  have v1: "ensureOwInstalled ?single False = (Inr (), False)"
    by (simp add: ensureOwInstalled_def runOw_def owCommandHead_def exampleHost_def)
  have s1: "mapSearch ?single (extractSearchTerm ?task) False
      = (Inr [\<lparr>fullName = js ''acme/tools'', score = 11 / 100\<rparr>], False)"
    unfolding same by (simp add: mapSearch_def runOw_def owCommandHead_def exampleHost_def)
  have noUI: "\<not> hasUI exampleHost" by (simp add: exampleHost_def)
  have sel: "selectCandidate exampleHost ?two
      = Inl (OffworldError
             (js ''Multiple Offworld map matches found; repository is ambiguous in non-interactive mode.'')
             repo_ambiguous
             (Some (js ''Re-run with an explicit '' @ [0x60] @ js ''repo'' @ [0x60]
                    @ js '' value (e.g. '' @ [0x60] @ js ''repo: '' @ [0x22] @ js ''owner/repo''
                    @ [0x22] @ [0x60] @ js '').'')))"
    using noUI by (simp add: selectCandidate_def)
  have run: "resolveRepoWithOffworld exampleHost False ?task None None
      = (case selectCandidate exampleHost ?two of
           Inl e \<Rightarrow> (Inl e, False)
         | Inr selected \<Rightarrow> resolveSelected exampleHost False (fullName selected)
             (map (\<lambda>m. (fullName m, score m)) ?two))"
    using v s by (simp add: resolveRepoWithOffworld_def truthyString_def cong: sum.case_cong)
  from search_disambiguation [OF v _ s, of None None]
  have "snd (resolveRepoWithOffworld exampleHost False ?task None None) = False"
    using noUI by (simp add: truthyString_def)
  moreover from search_disambiguation [OF v1 _ s1, of None None]
  have "resolveRepoWithOffworld ?single False ?task None None
      = resolveSelected ?single False (js ''acme/tools'') [(js ''acme/tools'', 11 / 100)]"
    by (simp add: truthyString_def)
  moreover have "fst (resolveRepoWithOffworld exampleHost False ?task None None)
      = Inl (OffworldError
             (js ''Multiple Offworld map matches found; repository is ambiguous in non-interactive mode.'')
             repo_ambiguous
             (Some (js ''Re-run with an explicit '' @ [0x60] @ js ''repo'' @ [0x60]
                    @ js '' value (e.g. '' @ [0x60] @ js ''repo: '' @ [0x22] @ js ''owner/repo''
                    @ [0x22] @ [0x60] @ js '').'')))"
    unfolding run sel by simp
  ultimately show ?thesis by simp
qed

text \<open>
  Claim C8. A value returned by the resolver has a reference path that is empty, or
  that does not end in a slash or a backslash and names a regular file in the world the
  resolver leaves. In the last step the reference path of the result is the one of the
  map entry when that one is usable, and empty otherwise. What the map entries report
  as reference path changes nothing else: with any other reference paths the resolution
  fails with the same error or returns the same value up to its reference path, in the
  same world.
\<close>

theorem reference_path_never_unusable:
  "(resolveRepoWithOffworld host w task repoHint taskHint = (Inr r, w') \<longrightarrow>
      referencePath r = []
      \<or> (\<not> endsWith (referencePath r) (js ''/'') \<and> \<not> endsWith (referencePath r) [0x5C]
         \<and> stat host (referencePath r) w' = Some RegularFile))
  \<and> (validateAssets host w2 effectiveRepo origin entry cands = (Inr r2, w3) \<longrightarrow>
      referencePath r2
        = (case MapShowJson.referencePath entry of
             None \<Rightarrow> []
           | Some p \<Rightarrow>
               if p \<noteq> [] \<and> \<not> endsWith p (js ''/'') \<and> \<not> endsWith p [0x5C]
                  \<and> stat host p w2 = Some RegularFile
               then p else []))
  \<and> eraseReference (resolveRepoWithOffworld (withReferencePaths g host) w task repoHint taskHint)
      = eraseReference (resolveRepoWithOffworld host w task repoHint taskHint)"
proof (intro conjI impI)
  assume "resolveRepoWithOffworld host w task repoHint taskHint = (Inr r, w')"
  then show "referencePath r = []
      \<or> (\<not> endsWith (referencePath r) (js ''/'') \<and> \<not> endsWith (referencePath r) [0x5C]
         \<and> stat host (referencePath r) w' = Some RegularFile)"
    by (rule resolve_usable)
next
  assume "validateAssets host w2 effectiveRepo origin entry cands = (Inr r2, w3)"
  from validateAssets_reference[OF this]
  show "referencePath r2
        = (case MapShowJson.referencePath entry of
             None \<Rightarrow> []
           | Some p \<Rightarrow>
               if p \<noteq> [] \<and> \<not> endsWith p (js ''/'') \<and> \<not> endsWith p [0x5C]
                  \<and> stat host p w2 = Some RegularFile
               then p else [])"
    by (simp add: usableReferencePath_def pathIsFile_def split: option.splits)
next
  show "eraseReference (resolveRepoWithOffworld (withReferencePaths g host) w task repoHint taskHint)
      = eraseReference (resolveRepoWithOffworld host w task repoHint taskHint)"
    by (rule resolve_with)
qed

theorem reference_path_never_unusable_witness:
  "resolveRepoWithOffworld exampleHost False (js ''inspect the tools'') (Some (js ''acme/tools'')) None
     = (Inr \<lparr>repo = js ''acme/tools'', qualifiedName = js ''github.com:acme/tools'', scope = js ''global'',
             clonePath = js ''/tmp/clone'', referencePath = [], resolvedFrom = Pulled,
             searchCandidates = []\<rparr>, True)
   \<and> resolveRepoWithOffworld (withReferencePaths (\<lambda>entry. Some (js ''/tmp/reference.md'')) exampleHost)
        False (js ''inspect the tools'') (Some (js ''acme/tools'')) None
     = (Inr \<lparr>repo = js ''acme/tools'', qualifiedName = js ''github.com:acme/tools'', scope = js ''global'',
             clonePath = js ''/tmp/clone'', referencePath = js ''/tmp/reference.md'', resolvedFrom = Pulled,
             searchCandidates = []\<rparr>, True)
   \<and> stat (withReferencePaths (\<lambda>entry. Some (js ''/tmp/reference.md'')) exampleHost)
        (js ''/tmp/reference.md'') True = Some RegularFile
   \<and> eraseReference (resolveRepoWithOffworld
        (withReferencePaths (\<lambda>entry. Some (js ''/tmp/reference.md'')) exampleHost)
        False (js ''inspect the tools'') (Some (js ''acme/tools'')) None)
     = eraseReference (resolveRepoWithOffworld exampleHost
        False (js ''inspect the tools'') (Some (js ''acme/tools'')) None)"
proof -
  let ?other = "withReferencePaths (\<lambda>entry. Some (js ''/tmp/reference.md'')) exampleHost"
  let ?r1 = "\<lparr>repo = js ''acme/tools'', qualifiedName = js ''github.com:acme/tools'', scope = js ''global'',
             clonePath = js ''/tmp/clone'', referencePath = [], resolvedFrom = Pulled,
             searchCandidates = []\<rparr>"
  let ?r2 = "\<lparr>repo = js ''acme/tools'', qualifiedName = js ''github.com:acme/tools'', scope = js ''global'',
             clonePath = js ''/tmp/clone'', referencePath = js ''/tmp/reference.md'', resolvedFrom = Pulled,
             searchCandidates = []\<rparr>"
  have a: "resolveRepoWithOffworld exampleHost False (js ''inspect the tools'') (Some (js ''acme/tools'')) None
      = (Inr ?r1, True)"
    by code_simp
  have b: "resolveRepoWithOffworld ?other False (js ''inspect the tools'') (Some (js ''acme/tools'')) None
      = (Inr ?r2, True)"
    by code_simp
  note inst = reference_path_never_unusable
      [where host = ?other and w = False and task = "js ''inspect the tools''"
         and repoHint = "Some (js ''acme/tools'')" and taskHint = None and r = ?r2 and w' = True]
  from inst b have "stat ?other (js ''/tmp/reference.md'') True = Some RegularFile"
    by simp
  moreover from reference_path_never_unusable
      [where host = exampleHost and g = "\<lambda>entry. Some (js ''/tmp/reference.md'')" and w = False
         and task = "js ''inspect the tools''" and repoHint = "Some (js ''acme/tools'')" and taskHint = None]
  have "eraseReference (resolveRepoWithOffworld ?other False (js ''inspect the tools'') (Some (js ''acme/tools'')) None)
      = eraseReference (resolveRepoWithOffworld exampleHost False (js ''inspect the tools'') (Some (js ''acme/tools'')) None)"
    by blast
  ultimately show ?thesis using a b by simp
qed

end
